theory Spec2Isabelle
  imports Main
begin

chapter \<open>The turn aggregation and evaluation pipeline of convergent\_assignment\<close>

text \<open>
  A shallow embedding of the server modules \<^verbatim>\<open>conversation_aggregator.py\<close>,
  \<^verbatim>\<open>coach.py\<close>, \<^verbatim>\<open>prompts_loader.py\<close>, \<^verbatim>\<open>session_logger.py\<close> and of the transcript
  and disconnect handlers of \<^verbatim>\<open>bot.py\<close>, followed by the properties C1 to C10 of the
  specification.  Objects are records that the operations take and return; a method that
  can raise returns a sum or an outcome; the generative model and the clock, which the
  program consults, are arguments.
\<close>

section \<open>Python strings\<close>

text \<open>
  A Python \<^verbatim>\<open>str\<close> is modelled as the list of its code points, and the model covers the
  code points below 256, which is what \<^typ>\<open>char\<close> holds.  \<open>py_isspace\<close> is
  \<^verbatim>\<open>str.isspace\<close> on one such code point: TAB, LF, VT, FF, CR, the four separators
  0x1C..0x1F, the space, NEL (0x85) and the no-break space (0xA0).
\<close>

definition py_isspace :: "char \<Rightarrow> bool" where
  "py_isspace c \<longleftrightarrow>
     c \<in> set [CHR 0x09, CHR 0x0A, CHR 0x0B, CHR 0x0C, CHR 0x0D,
              CHR 0x1C, CHR 0x1D, CHR 0x1E, CHR 0x1F, CHR 0x20, CHR 0x85, CHR 0xA0]"

text \<open>\<^verbatim>\<open>s.strip()\<close>: leading and trailing whitespace removed.\<close>

definition py_strip :: "string \<Rightarrow> string" where
  "py_strip s = rev (dropWhile py_isspace (rev (dropWhile py_isspace s)))"

text \<open>
  \<^verbatim>\<open>s.split()\<close> with no separator: the maximal runs of non-whitespace characters, in
  order; \<open>w\<close> is the run being read.
\<close>

fun py_split_from :: "string \<Rightarrow> string \<Rightarrow> string list" where
  "py_split_from w [] = (if w = [] then [] else [w])"
| "py_split_from w (c # cs) =
     (if py_isspace c then (if w = [] then py_split_from [] cs else w # py_split_from [] cs)
      else py_split_from (w @ [c]) cs)"

definition py_split :: "string \<Rightarrow> string list" where
  "py_split s = py_split_from [] s"

text \<open>\<^verbatim>\<open>sep.join(xs)\<close>.\<close>

fun py_join :: "string \<Rightarrow> string list \<Rightarrow> string" where
  "py_join sep [] = []"
| "py_join sep [x] = x"
| "py_join sep (x # y # ys) = x @ sep @ py_join sep (y # ys)"

text \<open>The truth value of an \<^verbatim>\<open>Optional[str]\<close>: \<^verbatim>\<open>None\<close> and \<^verbatim>\<open>""\<close> are false.\<close>

fun py_bool_optstr :: "string option \<Rightarrow> bool" where
  "py_bool_optstr None = False"
| "py_bool_optstr (Some s) = (s \<noteq> [])"

section \<open>conversation\_aggregator.py\<close>

text \<open>
  The module's roles: \<^verbatim>\<open>"assistant"\<close> is the customer (the persona bot),
  \<^verbatim>\<open>"user"\<close> is the bank representative being coached.
\<close>

record ConversationTurn =
  customer_prompt :: "string option"
  representative_responses :: "string list"

definition get_aggregated_representative_response :: "ConversationTurn \<Rightarrow> string" where
  "get_aggregated_representative_response turn =
     (if representative_responses turn = [] then []
      else py_join '' '' (py_split (py_join '' '' (representative_responses turn))))"

definition is_complete :: "ConversationTurn \<Rightarrow> bool" where
  "is_complete turn \<longleftrightarrow>
     py_bool_optstr (customer_prompt turn) \<and> representative_responses turn \<noteq> []"

record ConversationAggregator =
  pending_customer_prompt :: "string option"
  pending_rep_fragments :: "string list"
  completed_turns :: "ConversationTurn list"
  turn_count :: int

definition aggregator_init :: ConversationAggregator where
  "aggregator_init =
     \<lparr>pending_customer_prompt = None, pending_rep_fragments = [],
      completed_turns = [], turn_count = 0\<rparr>"

text \<open>
  \<open>add_message\<close> returns the updated aggregator and the method's return value: the pair
  (customer prompt, aggregated representative response) of a turn that has just been
  completed, or \<open>None\<close>.  The source reads the pending prompt only after testing that it is
  true, so \<open>the\<close> is applied to a \<open>Some\<close> there.
\<close>

definition add_message ::
  "ConversationAggregator \<Rightarrow> string \<Rightarrow> string \<Rightarrow>
     ConversationAggregator \<times> (string \<times> string) option" where
  "add_message self role content =
     (if content = [] \<or> py_strip content = [] then (self, None)
      else if role = ''assistant'' then
        (if py_bool_optstr (pending_customer_prompt self) \<and> pending_rep_fragments self \<noteq> [] then
           (let aggregated_rep = py_join '' '' (pending_rep_fragments self);
                aggregated_rep = py_join '' '' (py_split aggregated_rep);
                previous_prompt = the (pending_customer_prompt self);
                turn = \<lparr>customer_prompt = Some previous_prompt,
                        representative_responses = pending_rep_fragments self\<rparr>
            in (self\<lparr>turn_count := turn_count self + 1,
                      completed_turns := completed_turns self @ [turn],
                      pending_customer_prompt := Some (py_strip content),
                      pending_rep_fragments := []\<rparr>,
                Some (previous_prompt, aggregated_rep)))
         else
           (self\<lparr>pending_customer_prompt := Some (py_strip content),
                  pending_rep_fragments := []\<rparr>, None))
      else if role = ''user'' then
        (if \<not> py_bool_optstr (pending_customer_prompt self) then (self, None)
         else
           (self\<lparr>pending_rep_fragments := pending_rep_fragments self @ [py_strip content]\<rparr>,
            None))
      else (self, None))"

definition flush_pending_turn ::
  "ConversationAggregator \<Rightarrow> ConversationAggregator \<times> (string \<times> string) option" where
  "flush_pending_turn self =
     (if py_bool_optstr (pending_customer_prompt self) \<and> pending_rep_fragments self \<noteq> [] then
        (let aggregated_rep = py_join '' '' (pending_rep_fragments self);
             aggregated_rep = py_join '' '' (py_split aggregated_rep);
             customer_prompt = the (pending_customer_prompt self);
             turn = \<lparr>customer_prompt = Some customer_prompt,
                     representative_responses = pending_rep_fragments self\<rparr>
         in (self\<lparr>turn_count := turn_count self + 1,
                   completed_turns := completed_turns self @ [turn],
                   pending_customer_prompt := None,
                   pending_rep_fragments := []\<rparr>,
             Some (customer_prompt, aggregated_rep)))
      else (self, None))"

definition reset :: "ConversationAggregator \<Rightarrow> ConversationAggregator" where
  "reset self =
     self\<lparr>pending_customer_prompt := None, pending_rep_fragments := [],
          completed_turns := [], turn_count := 0\<rparr>"

text \<open>
  Feeding a sequence of (role, content) events through \<open>add_message\<close>, in arrival order,
  and collecting the values returned.
\<close>

fun feed_events ::
  "ConversationAggregator \<Rightarrow> (string \<times> string) list \<Rightarrow>
     ConversationAggregator \<times> (string \<times> string) option list" where
  "feed_events self [] = (self, [])"
| "feed_events self ((role, content) # events) =
     (case add_message self role content of
        (self', r) \<Rightarrow> (case feed_events self' events of (self'', rs) \<Rightarrow> (self'', r # rs)))"

text \<open>The operations of the aggregator that change its state.\<close>

datatype aggregator_op = AddMessage string string | FlushPendingTurn | Reset

fun apply_aggregator_op :: "ConversationAggregator \<Rightarrow> aggregator_op \<Rightarrow> ConversationAggregator" where
  "apply_aggregator_op self (AddMessage role content) = fst (add_message self role content)"
| "apply_aggregator_op self FlushPendingTurn = fst (flush_pending_turn self)"
| "apply_aggregator_op self Reset = reset self"

definition run_aggregator_ops :: "ConversationAggregator \<Rightarrow> aggregator_op list \<Rightarrow> ConversationAggregator" where
  "run_aggregator_ops self ops = foldl apply_aggregator_op self ops"

text \<open>A turn as the specification requires it: a non-empty prompt and at least one fragment.\<close>

definition well_formed_turn :: "ConversationTurn \<Rightarrow> bool" where
  "well_formed_turn turn \<longleftrightarrow>
     (case customer_prompt turn of None \<Rightarrow> False | Some p \<Rightarrow> p \<noteq> [])
     \<and> representative_responses turn \<noteq> []"

section \<open>JSON values and the decoder\<close>

text \<open>
  The values \<^verbatim>\<open>json.loads\<close> produces: \<open>JNull\<close> is Python's \<^verbatim>\<open>None\<close>, an object is a
  \<^verbatim>\<open>dict\<close> in insertion order.  A string value is the list of its code points, which an
  escape can take beyond the characters of the input; \<open>py_str\<close> is the value of a string
  of the model.  A number with a fraction or an exponent is kept as its lexeme (the text
  handed to \<^verbatim>\<open>float\<close>).
\<close>

type_synonym py_str = "nat list"

definition py_str :: "string \<Rightarrow> py_str" where
  "py_str s = map of_char s"

datatype json =
    JNull
  | JBool bool
  | JInt int
  | JFloat string
  | JString py_str
  | JArray "json list"
  | JObject "(py_str \<times> json) list"

type_synonym py_dict = "(py_str \<times> json) list"

text \<open>
  \<open>json_loads\<close> models the standard library's decoder, which is not part of the
  repository: \<open>None\<close> stands for any exception it raises.  It follows the decoder's
  grammar (whitespace, strings in strict mode, numbers, arrays, objects, the literals and
  the constants \<^verbatim>\<open>NaN\<close>, \<^verbatim>\<open>Infinity\<close>, \<^verbatim>\<open>-Infinity\<close>).  One limit of the model: the
  interpreter's recursion limit on deeply nested documents is not modelled.
\<close>

definition json_ws :: "char \<Rightarrow> bool" where
  "json_ws c \<longleftrightarrow> c \<in> set [CHR 0x20, CHR 0x09, CHR 0x0A, CHR 0x0D]"

definition skip_ws :: "string \<Rightarrow> string" where
  "skip_ws s = dropWhile json_ws s"

definition is_digit :: "char \<Rightarrow> bool" where
  "is_digit c \<longleftrightarrow> c \<in> set ''0123456789''"

definition digit_val :: "char \<Rightarrow> int" where
  "digit_val c = int (of_char c) - 48"

definition int_of_digits :: "string \<Rightarrow> int" where
  "int_of_digits ds = foldl (\<lambda>n c. 10 * n + digit_val c) 0 ds"

definition hex_val :: "char \<Rightarrow> nat option" where
  "hex_val c =
     (if is_digit c then Some (of_char c - 48)
      else if c \<in> set ''abcdef'' then Some (of_char c - 87)
      else if c \<in> set ''ABCDEF'' then Some (of_char c - 55)
      else None)"

text \<open>The code unit of the four hexadecimal digits of an escape \<^verbatim>\<open>\uXXXX\<close>.\<close>

definition decode_uXXXX :: "string \<Rightarrow> nat option" where
  "decode_uXXXX esc =
     (case map hex_val esc of
        [Some a, Some b, Some c, Some d] \<Rightarrow> Some (4096 * a + 256 * b + 16 * c + d)
      | _ \<Rightarrow> None)"

definition backslash :: "char \<Rightarrow> nat option" where
  "backslash e =
     (if e = CHR 0x22 then Some 0x22
      else if e = CHR 0x5C then Some 0x5C
      else if e = CHR ''/'' then Some 0x2F
      else if e = CHR ''b'' then Some 0x08
      else if e = CHR ''f'' then Some 0x0C
      else if e = CHR ''n'' then Some 0x0A
      else if e = CHR ''r'' then Some 0x0D
      else if e = CHR ''t'' then Some 0x09
      else None)"

definition cons_result :: "nat \<Rightarrow> (py_str \<times> string) option \<Rightarrow> (py_str \<times> string) option" where
  "cons_result c r = map_option (\<lambda>(str, rest). (c # str, rest)) r"

text \<open>
  \<open>scanstring\<close> reads a string body after its opening quote and returns the decoded
  string with the input that follows the closing quote.  A high surrogate followed by the
  escape of a low surrogate is one code point beyond 0xFFFF; any other escape is the code
  unit it names.
\<close>

fun scanstring :: "string \<Rightarrow> (py_str \<times> string) option" where
  "scanstring [] = None"
| "scanstring (c # cs) =
     (if c = CHR 0x22 then Some ([], cs)
      else if c = CHR 0x5C then
        (case cs of
           [] \<Rightarrow> None
         | e # es \<Rightarrow>
             if e = CHR ''u'' then
               (case decode_uXXXX (take 4 es) of
                  None \<Rightarrow> None
                | Some uni \<Rightarrow>
                    if 0xD800 \<le> uni \<and> uni \<le> 0xDBFF
                       \<and> take 2 (drop 4 es) = [CHR 0x5C, CHR ''u'']
                    then
                      (case decode_uXXXX (take 4 (drop 6 es)) of
                         None \<Rightarrow> None
                       | Some uni2 \<Rightarrow>
                           if 0xDC00 \<le> uni2 \<and> uni2 \<le> 0xDFFF
                           then cons_result
                                  (0x10000 + ((uni - 0xD800) * 1024 + (uni2 - 0xDC00)))
                                  (scanstring (drop 10 es))
                           else cons_result uni (scanstring (drop 4 es)))
                    else cons_result uni (scanstring (drop 4 es)))
             else
               (case backslash e of
                  None \<Rightarrow> None
                | Some b \<Rightarrow> cons_result b (scanstring es)))
      else if of_char c < (32 :: nat) then None
      else cons_result (of_char c) (scanstring cs))"

text \<open>
  The three groups of the decoder's number pattern: the integer part, the optional
  fraction and the optional exponent, each with the input left after it.
\<close>

definition match_integer :: "string \<Rightarrow> (string \<times> string) option" where
  "match_integer s =
     (let (sign, s1) =
            (case s of c # cs \<Rightarrow> if c = CHR ''-'' then (''-'', cs) else ([], s) | [] \<Rightarrow> ([], s))
      in case s1 of
           [] \<Rightarrow> None
         | d # ds \<Rightarrow>
             if d = CHR ''0'' then Some (sign @ ''0'', ds)
             else if is_digit d then
               Some (sign @ d # takeWhile is_digit ds, dropWhile is_digit ds)
             else None)"

definition match_frac :: "string \<Rightarrow> string \<times> string" where
  "match_frac s =
     (case s of
        c # cs \<Rightarrow>
          if c = CHR ''.'' \<and> takeWhile is_digit cs \<noteq> []
          then (c # takeWhile is_digit cs, dropWhile is_digit cs) else ([], s)
      | [] \<Rightarrow> ([], s))"

definition match_exp :: "string \<Rightarrow> string \<times> string" where
  "match_exp s =
     (case s of
        c # cs \<Rightarrow>
          if c = CHR ''e'' \<or> c = CHR ''E'' then
            (let (sign, ds) =
                   (case cs of
                      x # xs \<Rightarrow> if x = CHR ''-'' \<or> x = CHR ''+'' then ([x], xs) else ([], cs)
                    | [] \<Rightarrow> ([], cs))
             in if takeWhile is_digit ds \<noteq> []
                then (c # sign @ takeWhile is_digit ds, dropWhile is_digit ds) else ([], s))
          else ([], s)
      | [] \<Rightarrow> ([], s))"

definition parse_int :: "string \<Rightarrow> int" where
  "parse_int lexeme =
     (case lexeme of
        c # cs \<Rightarrow> if c = CHR ''-'' then - int_of_digits cs else int_of_digits lexeme
      | [] \<Rightarrow> 0)"

text \<open>
  \<^verbatim>\<open>int\<close> refuses a literal of more than 4300 digits with a \<^verbatim>\<open>ValueError\<close> (the default
  of \<^verbatim>\<open>sys.set_int_max_str_digits\<close> in CPython 3.11); the decoder lets it through, so the
  document fails.
\<close>

definition int_max_str_digits :: nat where
  "int_max_str_digits = 4300"

definition match_number :: "string \<Rightarrow> (json \<times> string) option" where
  "match_number s =
     (case match_integer s of
        None \<Rightarrow> None
      | Some (integer, s1) \<Rightarrow>
          (let (frac, s2) = match_frac s1; (exp, s3) = match_exp s2
           in if frac \<noteq> [] \<or> exp \<noteq> [] then Some (JFloat (integer @ frac @ exp), s3)
              else if int_max_str_digits < length (filter is_digit integer) then None
              else Some (JInt (parse_int integer), s3)))"

text \<open>\<^verbatim>\<open>d[k] = v\<close> on a dict held in insertion order.\<close>

fun dict_setitem :: "py_dict \<Rightarrow> py_str \<Rightarrow> json \<Rightarrow> py_dict" where
  "dict_setitem [] k v = [(k, v)]"
| "dict_setitem ((k', v') # kvs) k v =
     (if k' = k then (k, v) # kvs else (k', v') # dict_setitem kvs k v)"

definition starts_with :: "string \<Rightarrow> string \<Rightarrow> bool" where
  "starts_with s p \<longleftrightarrow> take (length p) s = p"

text \<open>
  The scanner.  The first argument bounds the number of nested calls.  Of two successive
  calls one is made after at least one more character has been read, so the bound that
  \<open>json_loads\<close> gives, twice the length of the input plus two, is never used up
  (\<open>json_loads_fuel\<close> below).  \<open>JSONArray\<close> and \<open>JSONObject\<close> take the items read so far and
  the input at the next item (for an object, after the opening quote of the next key).
\<close>

fun scan_once :: "nat \<Rightarrow> string \<Rightarrow> (json \<times> string) option"
and JSONArray :: "nat \<Rightarrow> json list \<Rightarrow> string \<Rightarrow> (json \<times> string) option"
and JSONObject :: "nat \<Rightarrow> py_dict \<Rightarrow> string \<Rightarrow> (json \<times> string) option"
where
  "scan_once 0 s = None"
| "scan_once (Suc n) s =
     (case s of
        [] \<Rightarrow> None
      | c # cs \<Rightarrow>
          if c = CHR 0x22 then
            (case scanstring cs of None \<Rightarrow> None | Some (str, rest) \<Rightarrow> Some (JString str, rest))
          else if c = CHR ''{'' then
            (case skip_ws cs of
               [] \<Rightarrow> None
             | d # ds \<Rightarrow>
                 if d = CHR ''}'' then Some (JObject [], ds)
                 else if d = CHR 0x22 then JSONObject n [] ds
                 else None)
          else if c = CHR ''['' then
            (case skip_ws cs of
               [] \<Rightarrow> None
             | d # ds \<Rightarrow> if d = CHR '']'' then Some (JArray [], ds) else JSONArray n [] (d # ds))
          else if starts_with s ''null'' then Some (JNull, drop 4 s)
          else if starts_with s ''true'' then Some (JBool True, drop 4 s)
          else if starts_with s ''false'' then Some (JBool False, drop 5 s)
          else
            (case match_number s of
               Some r \<Rightarrow> Some r
             | None \<Rightarrow>
                 if starts_with s ''NaN'' then Some (JFloat ''NaN'', drop 3 s)
                 else if starts_with s ''Infinity'' then Some (JFloat ''Infinity'', drop 8 s)
                 else if starts_with s ''-Infinity'' then Some (JFloat ''-Infinity'', drop 9 s)
                 else None))"
| "JSONArray 0 values s = None"
| "JSONArray (Suc n) values s =
     (case scan_once n s of
        None \<Rightarrow> None
      | Some (value, rest) \<Rightarrow>
          (case skip_ws rest of
             [] \<Rightarrow> None
           | d # ds \<Rightarrow>
               if d = CHR '']'' then Some (JArray (values @ [value]), ds)
               else if d = CHR '','' then JSONArray n (values @ [value]) (skip_ws ds)
               else None))"
| "JSONObject 0 pairs s = None"
| "JSONObject (Suc n) pairs s =
     (case scanstring s of
        None \<Rightarrow> None
      | Some (key, rest) \<Rightarrow>
          (case skip_ws rest of
             [] \<Rightarrow> None
           | c # cs \<Rightarrow>
               if c \<noteq> CHR '':'' then None
               else
                 (case scan_once n (skip_ws cs) of
                    None \<Rightarrow> None
                  | Some (value, rest') \<Rightarrow>
                      (case skip_ws rest' of
                         [] \<Rightarrow> None
                       | d # ds \<Rightarrow>
                           if d = CHR ''}'' then Some (JObject (dict_setitem pairs key value), ds)
                           else if d = CHR '','' then
                             (case skip_ws ds of
                                [] \<Rightarrow> None
                              | q # qs \<Rightarrow>
                                  if q = CHR 0x22
                                  then JSONObject n (dict_setitem pairs key value) qs
                                  else None)
                           else None))))"

definition json_loads :: "string \<Rightarrow> json option" where
  "json_loads s =
     (case scan_once (2 * length s + 2) (skip_ws s) of
        None \<Rightarrow> None
      | Some (obj, rest) \<Rightarrow> if skip_ws rest = [] then Some obj else None)"

text \<open>
  The truth value of a decoded value (\<^verbatim>\<open>if parsed:\<close>).  A float is false when it is
  zero.  The lexeme \<open>d.f e x\<close> denotes \<open>m * 10 ^ e\<close>, with \<open>m\<close> the number its digits \<open>d f\<close>
  spell and \<open>e\<close> the exponent \<open>x\<close> less the number of digits of \<open>f\<close>; \<^verbatim>\<open>float\<close> rounds it to
  the nearest double, to even on a tie, which is zero exactly when the number is at most
  \<open>2 ^ - 1075\<close>, half the least positive double.
\<close>

definition exponent_val :: "string \<Rightarrow> int" where
  "exponent_val x =
     (case x of
        c # cs \<Rightarrow>
          if c = CHR ''-'' then - int_of_digits cs
          else if c = CHR ''+'' then int_of_digits cs
          else int_of_digits x
      | [] \<Rightarrow> 0)"

definition float_is_zero :: "string \<Rightarrow> bool" where
  "float_is_zero lexeme \<longleftrightarrow>
     (let mantissa = takeWhile (\<lambda>c. c \<noteq> CHR ''e'' \<and> c \<noteq> CHR ''E'') lexeme;
          m = int_of_digits (filter is_digit mantissa);
          fraction = filter is_digit (dropWhile (\<lambda>c. c \<noteq> CHR ''.'') mantissa);
          e = exponent_val (drop (Suc (length mantissa)) lexeme) - int (length fraction)
      in m = 0 \<or> (e < 0 \<and> m * 2 ^ 1075 \<le> 10 ^ nat (- e)))"

definition float_nonzero :: "string \<Rightarrow> bool" where
  "float_nonzero lexeme \<longleftrightarrow>
     (if lexeme \<in> set [''NaN'', ''Infinity'', ''-Infinity''] then True
      else \<not> float_is_zero lexeme)"

fun py_truthy :: "json \<Rightarrow> bool" where
  "py_truthy JNull = False"
| "py_truthy (JBool b) = b"
| "py_truthy (JInt n) = (n \<noteq> 0)"
| "py_truthy (JFloat lexeme) = float_nonzero lexeme"
| "py_truthy (JString s) = (s \<noteq> [])"
| "py_truthy (JArray xs) = (xs \<noteq> [])"
| "py_truthy (JObject kvs) = (kvs \<noteq> [])"

text \<open>\<^verbatim>\<open>type(v).__name__\<close>, as it appears in the message of an \<^verbatim>\<open>AttributeError\<close>.\<close>

fun py_type_name :: "json \<Rightarrow> string" where
  "py_type_name JNull = ''NoneType''"
| "py_type_name (JBool b) = ''bool''"
| "py_type_name (JInt n) = ''int''"
| "py_type_name (JFloat lexeme) = ''float''"
| "py_type_name (JString s) = ''str''"
| "py_type_name (JArray xs) = ''list''"
| "py_type_name (JObject kvs) = ''dict''"

section \<open>coach.py: extracting JSON from the model's text\<close>

text \<open>\<^verbatim>\<open>s.find(c)\<close> and \<^verbatim>\<open>s.rfind(c)\<close>: the index of the first (last) occurrence, or -1.\<close>

fun py_find :: "string \<Rightarrow> char \<Rightarrow> int" where
  "py_find [] c = - 1"
| "py_find (x # xs) c =
     (if x = c then 0 else (let i = py_find xs c in if i = - 1 then - 1 else i + 1))"

definition py_rfind :: "string \<Rightarrow> char \<Rightarrow> int" where
  "py_rfind s c =
     (let i = py_find (rev s) c in if i = - 1 then - 1 else int (length s) - 1 - i)"

text \<open>\<^verbatim>\<open>s[i:j]\<close> for \<open>0 \<le> i\<close> and \<open>0 \<le> j\<close>, the only use the source makes of it.\<close>

definition py_slice :: "string \<Rightarrow> int \<Rightarrow> int \<Rightarrow> string" where
  "py_slice s i j = take (nat j - nat i) (drop (nat i) s)"

text \<open>
  \<open>safe_json_extract\<close> is \<^verbatim>\<open>_safe_json_extract\<close>.  Its result is a Python value: \<open>JNull\<close>
  is the \<^verbatim>\<open>None\<close> it returns on failure, and also what the decoder returns for the
  document \<^verbatim>\<open>null\<close>.
\<close>

definition safe_json_extract :: "string \<Rightarrow> json" where
  "safe_json_extract text =
     (if text = [] then JNull
      else case json_loads text of
        Some v \<Rightarrow> v
      | None \<Rightarrow>
          (let start = py_find text (CHR ''{'');
               end_idx = py_rfind text (CHR ''}'')
           in if start \<noteq> - 1 \<and> end_idx \<noteq> - 1 \<and> end_idx > start then
                (case json_loads (py_slice text start (end_idx + 1)) of
                   Some v \<Rightarrow> v
                 | None \<Rightarrow> JNull)
              else JNull))"

section \<open>prompts\_loader.py\<close>

text \<open>
  A prompt has the fields of the dataclass at their declared types.  Its \<^verbatim>\<open>content\<close> is a
  \<^verbatim>\<open>Dict[str, Any]\<close> read from \<^verbatim>\<open>prompts.json\<close>: a dict whose values are any values of
  JSON.  The fields \<^verbatim>\<open>id\<close>, \<^verbatim>\<open>content\<close> and \<^verbatim>\<open>scenario\<close> carry the prefix \<open>prompt_\<close> here.
\<close>

record Prompt =
  prompt_id :: string
  name :: string
  entity :: string
  prompt_version :: string
  date_updated :: string
  prompt_content :: py_dict
  persona :: "string option"
  prompt_scenario :: "string option"

text \<open>\<^verbatim>\<open>d.get(key, default)\<close>.\<close>

definition dict_get :: "py_dict \<Rightarrow> string \<Rightarrow> json \<Rightarrow> json" where
  "dict_get d key dflt = (case map_of d (py_str key) of None \<Rightarrow> dflt | Some v \<Rightarrow> v)"

text \<open>\<^verbatim>\<open>str.lower\<close> on a code point below 256.\<close>

definition py_lower_char :: "char \<Rightarrow> char" where
  "py_lower_char c =
     (let n = (of_char c :: nat)
      in if (65 \<le> n \<and> n \<le> 90) \<or> (192 \<le> n \<and> n \<le> 222 \<and> n \<noteq> 215)
         then char_of (n + 32) else c)"

definition py_lower :: "string \<Rightarrow> string" where
  "py_lower s = map py_lower_char s"

text \<open>\<^verbatim>\<open>sub in s\<close> on strings.\<close>

fun py_contains :: "string \<Rightarrow> string \<Rightarrow> bool" where
  "py_contains sub [] = (sub = [])"
| "py_contains sub (c # cs) = (starts_with (c # cs) sub \<or> py_contains sub cs)"

text \<open>
  A \<^verbatim>\<open>PromptsRepository\<close> is modelled by the prompts of its index, in order.
  \<open>find_prompts\<close> is its method \<^verbatim>\<open>find\<close>; it takes the three keyword arguments in the
  order entity, scenario, name\_contains; a filter is applied when its argument is true
  (neither \<^verbatim>\<open>None\<close> nor empty).
\<close>

definition find_prompts ::
  "Prompt list \<Rightarrow> string option \<Rightarrow> string option \<Rightarrow> string option \<Rightarrow> Prompt list" where
  "find_prompts self entity_arg scenario_arg name_contains =
     (let results = self;
          results = (if py_bool_optstr entity_arg
                     then filter (\<lambda>p. entity p = the entity_arg) results else results);
          results = (if py_bool_optstr scenario_arg
                     then filter (\<lambda>p. prompt_scenario p = scenario_arg) results else results);
          results = (if py_bool_optstr name_contains
                     then filter (\<lambda>p. py_contains (py_lower (the name_contains))
                                          (py_lower (name p))) results
                     else results)
      in results)"

text \<open>The exceptions the code can raise, each with its message.\<close>

datatype py_exception =
    KeyError string
  | RuntimeError string
  | AttributeError string
  | TypeError string

definition coach_main_system_prompt :: "Prompt list \<Rightarrow> py_exception + json" where
  "coach_main_system_prompt self =
     (let matches = find_prompts self (Some ''coach_agent'') None (Some ''Main System Prompt'')
      in if matches = [] then Inl (KeyError ''No coach main system prompt found'')
         else Inr (dict_get (prompt_content (hd matches)) ''system'' (JString [])))"

section \<open>coach.py: the coach\<close>

record TurnEvaluation =
  turn_number :: int
  customer_message :: string
  representative_response :: string
  raw_text :: string
  parsed :: json

record ConversationState =
  scenario :: string
  persona_name :: string
  last_customer_message :: "string option"
  last_evaluated_rep_response :: "string option"
  turn_index :: int
  evaluations :: "TurnEvaluation list"

text \<open>A freshly constructed state: \<^verbatim>\<open>ConversationState(scenario, persona_name)\<close>.\<close>

definition ConversationState_init :: "string \<Rightarrow> string \<Rightarrow> ConversationState" where
  "ConversationState_init sc pn =
     \<lparr>scenario = sc, persona_name = pn, last_customer_message = None,
      last_evaluated_rep_response = None, turn_index = 0, evaluations = []\<rparr>"

text \<open>
  The text of a request to the generative model is represented by the values the source
  interpolates into its template, in the order in which they appear; the fixed wording
  between them is not reproduced, nor is the text \<^verbatim>\<open>str\<close> makes of a value.  The lines
  joined by a separator appear as the array of the lines.
\<close>

type_synonym request = "json list"

text \<open>
  One statement after another: the second is run on the value of the first unless the
  first raises.
\<close>

definition py_then :: "py_exception + 'a \<Rightarrow> ('a \<Rightarrow> py_exception + 'b) \<Rightarrow> py_exception + 'b" where
  "py_then r f = (case r of Inl e \<Rightarrow> Inl e | Inr v \<Rightarrow> f v)"

text \<open>\<^verbatim>\<open>str(n)\<close> for a natural number, and a name between single quotes.\<close>

fun py_decimal :: "nat \<Rightarrow> string" where
  "py_decimal n =
     (if n < 10 then [char_of (48 + n)] else py_decimal (n div 10) @ [char_of (48 + n mod 10)])"

definition py_quoted :: "string \<Rightarrow> string" where
  "py_quoted s = [CHR 0x27] @ s @ [CHR 0x27]"

text \<open>
  \<^verbatim>\<open>for c in v\<close>: the items of a list, the characters of a string, the keys of a dict; any
  other value of JSON is not iterable.
\<close>

definition py_iter :: "json \<Rightarrow> py_exception + json list" where
  "py_iter v =
     (case v of
        JArray xs \<Rightarrow> Inr xs
      | JString s \<Rightarrow> Inr (map (\<lambda>c. JString [c]) s)
      | JObject kvs \<Rightarrow> Inr (map (\<lambda>kv. JString (fst kv)) kvs)
      | _ \<Rightarrow> Inl (TypeError (py_quoted (py_type_name v) @ '' object is not iterable'')))"

text \<open>
  \<^verbatim>\<open>sep.join(v)\<close>: the strings that are joined, in order.  \<open>str_items\<close> checks them from the
  index given; \<^verbatim>\<open>join\<close> raises at the first item that is not a string.
\<close>

fun str_items :: "nat \<Rightarrow> json list \<Rightarrow> py_exception + json list" where
  "str_items i [] = Inr []"
| "str_items i (x # xs) =
     (case x of
        JString s \<Rightarrow> py_then (str_items (Suc i) xs) (\<lambda>ys. Inr (x # ys))
      | _ \<Rightarrow>
          Inl (TypeError (''sequence item '' @ py_decimal i @ '': expected str instance, ''
                            @ py_type_name x @ '' found'')))"

definition py_join_value :: "json \<Rightarrow> py_exception + json" where
  "py_join_value v =
     (case py_iter v of
        Inl e \<Rightarrow> Inl (TypeError ''can only join an iterable'')
      | Inr xs \<Rightarrow> py_then (str_items 0 xs) (\<lambda>ys. Inr (JArray ys)))"

text \<open>
  \<^verbatim>\<open>v[:n]\<close>: a list and a string have slices, a dict refuses the slice as a key (a slice
  is not hashable in CPython 3.11), any other value of JSON is not subscriptable.
\<close>

definition py_slice_to :: "nat \<Rightarrow> json \<Rightarrow> py_exception + json" where
  "py_slice_to n v =
     (case v of
        JArray xs \<Rightarrow> Inr (JArray (take n xs))
      | JString s \<Rightarrow> Inr (JString (take n s))
      | JObject kvs \<Rightarrow> Inl (TypeError (''unhashable type: '' @ py_quoted ''slice''))
      | _ \<Rightarrow> Inl (TypeError (py_quoted (py_type_name v) @ '' object is not subscriptable'')))"

text \<open>The lines \<^verbatim>\<open>[f"- {c}" for c in v]\<close>, one for each item.\<close>

definition bullet_lines :: "json \<Rightarrow> py_exception + json" where
  "bullet_lines v = py_then (py_iter v) (\<lambda>xs. Inr (JArray xs))"

text \<open>
  What the model's response exposes to the coach: the candidates with their finish reason
  (absent when the candidate has no such attribute) and the text.
\<close>

record Candidate =
  finish_reason :: "int option"

record GenerateContentResponse =
  candidates :: "Candidate list"
  response_text :: string

text \<open>
  The outcome of the call to \<^verbatim>\<open>generate_content\<close> under \<^verbatim>\<open>asyncio.wait_for\<close>: a
  response (possibly a false one, \<open>None\<close>), the timeout, or any other \<^verbatim>\<open>Exception\<close>
  raised by the library while the call is made or the response is read, with its
  description \<^verbatim>\<open>str(e)\<close>.  Exceptions outside the \<^verbatim>\<open>Exception\<close> hierarchy (task
  cancellation, interpreter exit) are not modelled.
\<close>

datatype model_outcome =
    Responded "GenerateContentResponse option"
  | TimedOut
  | Failed string

type_synonym GenerativeModel = "request \<Rightarrow> model_outcome"

text \<open>The field \<^verbatim>\<open>_model\<close> is \<open>None\<close> until \<open>start\<close> has run.\<close>

record GeminiCoach =
  prompts_repo :: "Prompt list"
  model :: "GenerativeModel option"
  api_key :: "string option"

text \<open>
  \<open>start\<close> takes the model that \<^verbatim>\<open>genai.GenerativeModel\<close> constructs as its first
  argument.
\<close>

definition start :: "GenerativeModel \<Rightarrow> GeminiCoach \<Rightarrow> py_exception + GeminiCoach" where
  "start genai self =
     (if \<not> py_bool_optstr (api_key self) then Inl (RuntimeError ''GEMINI_API_KEY is not set'')
      else Inr (self\<lparr>model := Some genai\<rparr>))"

definition is_ready :: "GeminiCoach \<Rightarrow> bool" where
  "is_ready self \<longleftrightarrow> model self \<noteq> None"

definition ensure_started :: "GenerativeModel \<Rightarrow> GeminiCoach \<Rightarrow> py_exception + GeminiCoach" where
  "ensure_started genai self = (if \<not> is_ready self then start genai self else Inr self)"

definition stop :: "GeminiCoach \<Rightarrow> GeminiCoach" where
  "stop self = self\<lparr>model := None\<rparr>"

text \<open>
  \<open>build_evaluation_prompt\<close> is \<^verbatim>\<open>_build_evaluation_prompt\<close>, in three parts.  When no
  coach prompt named "Main System" is found, the source falls back to
  \<open>coach_main_system_prompt\<close>, whose \<^verbatim>\<open>KeyError\<close> is not handled here; nor is the
  \<^verbatim>\<open>TypeError\<close> of a \<^verbatim>\<open>join\<close>, a comprehension or a slice on a value of the content that
  does not support it.
\<close>

definition coach_system_part :: "Prompt list \<Rightarrow> py_exception + request" where
  "coach_system_part repo =
     (let coach_prompt = find_prompts repo (Some ''coach_agent'') None (Some ''Main System'')
      in if coach_prompt = [] then
           py_then (coach_main_system_prompt repo) (\<lambda>coach_system. Inr [coach_system])
         else
           (let c = prompt_content (hd coach_prompt);
                coach_system = dict_get c ''system'' (JString [])
            in py_then (py_join_value (dict_get c ''role_expertise'' (JArray [])))
                 (\<lambda>role_expertise.
               py_then (bullet_lines (dict_get c ''evaluation_criteria'' (JArray [])))
                 (\<lambda>eval_criteria.
               py_then (bullet_lines (dict_get c ''behavioral_guidelines'' (JArray [])))
                 (\<lambda>guidelines.
               py_then (bullet_lines (dict_get c ''coaching_philosophy'' (JArray [])))
                 (\<lambda>philosophy.
               Inr [coach_system, role_expertise, eval_criteria, guidelines, philosophy]))))))"

definition scenario_context_part :: "Prompt list \<Rightarrow> ConversationState \<Rightarrow> py_exception + request" where
  "scenario_context_part repo state =
     (let persona_prompts =
            find_prompts repo (Some ''simulation_customer'') (Some (scenario state)) None
      in if persona_prompts \<noteq> [] then
           (let persona_info = prompt_content (hd persona_prompts);
                emotional_state =
                  dict_get persona_info ''emotional_state'' (JString (py_str ''Unknown''));
                key_phrases = dict_get persona_info ''key_phrases'' (JArray []);
                backstory = dict_get persona_info ''backstory'' (JArray [])
            in py_then (py_then (py_slice_to 2 backstory) py_join_value)
                 (\<lambda>backstory_text.
               py_then (py_then (py_slice_to 2 key_phrases) py_join_value)
                 (\<lambda>key_phrases_text.
               Inr [JString (py_str (persona_name state)), JString (py_str (scenario state)),
                    emotional_state, backstory_text, key_phrases_text])))
         else Inr [JString (py_str (persona_name state)), JString (py_str (scenario state))])"

definition build_evaluation_prompt ::
  "GeminiCoach \<Rightarrow> ConversationState \<Rightarrow> string \<Rightarrow> string \<Rightarrow> py_exception + request" where
  "build_evaluation_prompt self state customer_prompt_arg representative_response_arg =
     py_then (coach_system_part (prompts_repo self)) (\<lambda>coach_system.
     py_then (scenario_context_part (prompts_repo self) state) (\<lambda>scenario_context.
       (let turn_context =
              [JInt (turn_index state), JString (py_str customer_prompt_arg),
               JString (py_str representative_response_arg)]
        in Inr (coach_system @ scenario_context @ turn_context))))"

text \<open>What a call of a coroutine does: it raises, or it returns a value.\<close>

datatype 'a outcome = Raised py_exception | Returned 'a

text \<open>The message of the \<^verbatim>\<open>AttributeError\<close> for a missing attribute.\<close>

definition no_attribute :: "string \<Rightarrow> string \<Rightarrow> string" where
  "no_attribute type_name attr =
     [CHR 0x27] @ type_name @ [CHR 0x27] @ '' object has no attribute '' @
     [CHR 0x27] @ attr @ [CHR 0x27]"

text \<open>
  The \<^verbatim>\<open>try\<close> statement of \<open>evaluate_turn\<close>, with its two handlers: the values of
  \<open>raw_text\<close> and \<open>parsed\<close> it leaves.  Inside it, the call on a coach that was never
  started raises \<^verbatim>\<open>AttributeError\<close>, and so does \<^verbatim>\<open>parsed.get\<close> in the log line when
  \<open>parsed\<close> is true and not a dict; both are handled by \<^verbatim>\<open>except Exception\<close>.
\<close>

definition evaluate_turn_try :: "GeminiCoach \<Rightarrow> request \<Rightarrow> string \<times> json" where
  "evaluate_turn_try self prompt =
     (case model self of
        None \<Rightarrow> (no_attribute ''NoneType'' ''generate_content'', JNull)
      | Some generate_content \<Rightarrow>
          (case generate_content prompt of
             TimedOut \<Rightarrow> (''Timeout'', JNull)
           | Failed e \<Rightarrow> (e, JNull)
           | Responded response \<Rightarrow>
               (let raw_text =
                      (case response of
                         None \<Rightarrow> []
                       | Some r \<Rightarrow>
                           if candidates r = [] then []
                           else if finish_reason (hd (candidates r)) = Some 2
                           then ''Response blocked by safety filters''
                           else response_text r);
                    parsed = safe_json_extract raw_text
                in if py_truthy parsed then
                     (case parsed of
                        JObject kvs \<Rightarrow> (raw_text, parsed)
                      | _ \<Rightarrow> (no_attribute (py_type_name parsed) ''get'', JNull))
                   else (raw_text, parsed))))"

text \<open>
  \<open>evaluate_turn\<close> returns the state as the call leaves it, also when it raises, and the
  outcome of the call.  The prompt is built before the \<^verbatim>\<open>try\<close> statement is entered.
\<close>

definition evaluate_turn ::
  "GeminiCoach \<Rightarrow> ConversationState \<Rightarrow> string \<Rightarrow> string \<Rightarrow>
     ConversationState \<times> TurnEvaluation option outcome" where
  "evaluate_turn self state customer_prompt_arg representative_response_arg =
     (if last_evaluated_rep_response state = Some representative_response_arg
         \<and> last_customer_message state = Some customer_prompt_arg
      then (state, Returned None)
      else
        (let state = state\<lparr>turn_index := turn_index state + 1,
                           last_customer_message := Some customer_prompt_arg,
                           last_evaluated_rep_response := Some representative_response_arg\<rparr>
         in case build_evaluation_prompt self state customer_prompt_arg
                   representative_response_arg of
              Inl e \<Rightarrow> (state, Raised e)
            | Inr prompt \<Rightarrow>
                (let (raw_text, parsed) = evaluate_turn_try self prompt;
                     evaluation =
                       \<lparr>turn_number = turn_index state,
                        customer_message = customer_prompt_arg,
                        representative_response = representative_response_arg,
                        raw_text = raw_text,
                        parsed = parsed\<rparr>
                 in (state\<lparr>evaluations := evaluations state @ [evaluation]\<rparr>,
                     Returned (Some evaluation)))))"

text \<open>
  A sequence of calls of \<open>evaluate_turn\<close> on one state, each with its coach and its pair:
  the final state and the outcomes in order.  A caller that handles an exception, as the
  transcript handler does, goes on with the state the failed call has left.
\<close>

fun evaluate_turns ::
  "ConversationState \<Rightarrow> (GeminiCoach \<times> string \<times> string) list \<Rightarrow>
     ConversationState \<times> TurnEvaluation option outcome list" where
  "evaluate_turns state [] = (state, [])"
| "evaluate_turns state ((self, customer_prompt_arg, representative_response_arg) # calls) =
     (case evaluate_turn self state customer_prompt_arg representative_response_arg of
        (state', r) \<Rightarrow>
          (case evaluate_turns state' calls of (state'', rs) \<Rightarrow> (state'', r # rs)))"

fun is_Returned :: "'a outcome \<Rightarrow> bool" where
  "is_Returned (Returned x) = True"
| "is_Returned (Raised e) = False"

subsection \<open>The session assessment\<close>

text \<open>The five fixed answers of \<open>generate_session_assessment\<close>.\<close>

definition assessment_heading :: string where
  "assessment_heading = ''# Session Assessment'' @ [CHR 0x0A, CHR 0x0A]"

definition no_transcript_fallback :: string where
  "no_transcript_fallback = assessment_heading @ ''No transcript available for assessment.''"

definition no_configuration_fallback :: string where
  "no_configuration_fallback = assessment_heading @ ''Assessment configuration not found.''"

definition timeout_fallback :: string where
  "timeout_fallback = assessment_heading @ ''Assessment generation timed out.''"

definition failure_fallback :: "string \<Rightarrow> string" where
  "failure_fallback e = assessment_heading @ ''Assessment generation failed: '' @ e"

definition no_response_fallback :: string where
  "no_response_fallback =
     assessment_heading @ ''Assessment generation failed - no response received.''"

text \<open>
  The transcript is a \<^verbatim>\<open>List[Dict[str, Any]]\<close>: a list of dicts whose values are any values
  of JSON.  \<open>conversation_lines\<close> is the loop over its entries; of an entry it keeps the
  values of the time stamp, the role and the content.  \<^verbatim>\<open>.title()\<close> is a method of
  strings only, and the letter case it gives to the role is not reproduced.
\<close>

fun conversation_lines :: "py_dict list \<Rightarrow> py_exception + json list" where
  "conversation_lines [] = Inr []"
| "conversation_lines (entry # entries) =
     (case dict_get entry ''role'' (JString []) of
        JString r \<Rightarrow>
          py_then (conversation_lines entries) (\<lambda>lines.
            Inr ([dict_get entry ''ts'' (JString []), JString r,
                  dict_get entry ''content'' (JString [])] @ lines))
      | v \<Rightarrow> Inl (AttributeError (no_attribute (py_type_name v) ''title'')))"

text \<open>
  The request of the session assessment, built from the prompt found in the repository:
  the statements of \<open>generate_session_assessment\<close> between the look-up and the \<^verbatim>\<open>try\<close>
  statement, which no handler covers.
\<close>

definition build_assessment_prompt ::
  "Prompt \<Rightarrow> ConversationState \<Rightarrow> py_dict list \<Rightarrow> py_exception + request" where
  "build_assessment_prompt found state transcript =
     (let prompt_content = prompt_content found;
          instruction = dict_get prompt_content ''instruction'' (JString []);
          achievements_list = dict_get prompt_content ''achievements'' (JArray [])
      in py_then (conversation_lines transcript) (\<lambda>conversation_text.
         py_then (py_join_value achievements_list) (\<lambda>achievements_text.
           Inr [instruction, achievements_text, JString (py_str (persona_name state)),
                JString (py_str (scenario state)), JInt (int (length transcript)),
                JArray conversation_text])))"

text \<open>The \<^verbatim>\<open>try\<close> statement of \<open>generate_session_assessment\<close>, with its two handlers.\<close>

definition generate_session_assessment_try :: "GeminiCoach \<Rightarrow> request \<Rightarrow> string" where
  "generate_session_assessment_try self assessment_prompt_text =
     (case model self of
        None \<Rightarrow> failure_fallback (no_attribute ''NoneType'' ''generate_content'')
      | Some generate_content \<Rightarrow>
          (case generate_content assessment_prompt_text of
             TimedOut \<Rightarrow> timeout_fallback
           | Failed e \<Rightarrow> failure_fallback e
           | Responded response \<Rightarrow>
               (case response of
                  None \<Rightarrow> no_response_fallback
                | Some r \<Rightarrow>
                    if response_text r \<noteq> [] then response_text r
                    else no_response_fallback)))"

definition generate_session_assessment ::
  "GeminiCoach \<Rightarrow> ConversationState \<Rightarrow> py_dict list \<Rightarrow> string outcome" where
  "generate_session_assessment self state transcript =
     (if transcript = [] then Returned no_transcript_fallback
      else
        (let assessment_prompt =
               find_prompts (prompts_repo self) (Some ''coach_agent'') None
                 (Some ''Session Assessment'')
         in if assessment_prompt = [] then Returned no_configuration_fallback
            else
              (case build_assessment_prompt (hd assessment_prompt) state transcript of
                 Inl e \<Rightarrow> Raised e
               | Inr assessment_prompt_text \<Rightarrow>
                   Returned (generate_session_assessment_try self assessment_prompt_text))))"

section \<open>session\_logger.py\<close>

text \<open>
  An entry of the final transcript, and the dict \<^verbatim>\<open>asdict\<close> makes of it.
\<close>

record TranscriptEntry =
  ts_ms :: int
  ts :: string
  role :: string
  content :: string

definition asdict :: "TranscriptEntry \<Rightarrow> py_dict" where
  "asdict t =
     [(py_str ''ts_ms'', JInt (ts_ms t)), (py_str ''ts'', JString (py_str (ts t))),
      (py_str ''role'', JString (py_str (role t))),
      (py_str ''content'', JString (py_str (content t)))]"

text \<open>
  An entry of the interim-inclusive log is the dict of a \<open>TranscriptEntry\<close> with the key
  \<^verbatim>\<open>is_interim\<close> added.
\<close>

record InterimTranscriptEntry = TranscriptEntry +
  is_interim :: bool

record Interaction =
  customer :: string
  representative :: string

text \<open>An entry of the per-turn log; its two time stamps carry the prefix \<open>turn_\<close>.\<close>

record CoachTurnEntry =
  turn_ts_ms :: int
  turn_ts :: string
  turn :: int
  interaction :: Interaction
  coaching :: json

text \<open>
  The logger's three in-memory lists and, for each of its files, what was last written to
  it (\<open>None\<close> before the first write).  Writing a file is taken to succeed.
\<close>

record SessionLogger =
  transcript :: "TranscriptEntry list"
  interim_transcript :: "InterimTranscriptEntry list"
  coach_turns :: "CoachTurnEntry list"
  transcript_file :: "TranscriptEntry list option"
  interim_transcript_file :: "InterimTranscriptEntry list option"
  per_turn_file :: "CoachTurnEntry list option"
  session_eval_file :: "string option"

definition SessionLogger_init :: SessionLogger where
  "SessionLogger_init =
     \<lparr>transcript = [], interim_transcript = [], coach_turns = [],
      transcript_file = None, interim_transcript_file = None, per_turn_file = None,
      session_eval_file = None\<rparr>"

text \<open>
  A reading of the clock: \<^verbatim>\<open>_now_ms()\<close> and the display time stamp.  Each operation that
  reads the clock takes the reading as its first argument.
\<close>

type_synonym clock_reading = "int \<times> string"

definition flush_transcript :: "SessionLogger \<Rightarrow> SessionLogger" where
  "flush_transcript self = self\<lparr>transcript_file := Some (transcript self)\<rparr>"

definition flush_interim_transcript :: "SessionLogger \<Rightarrow> SessionLogger" where
  "flush_interim_transcript self =
     self\<lparr>interim_transcript_file := Some (interim_transcript self)\<rparr>"

definition flush_per_turn :: "SessionLogger \<Rightarrow> SessionLogger" where
  "flush_per_turn self = self\<lparr>per_turn_file := Some (coach_turns self)\<rparr>"

definition append_transcript ::
  "clock_reading \<Rightarrow> SessionLogger \<Rightarrow> string \<Rightarrow> string \<Rightarrow> bool \<Rightarrow> SessionLogger" where
  "append_transcript now self role_arg content_arg is_interim_arg =
     (let entry = \<lparr>ts_ms = fst now, ts = snd now, role = role_arg, content = content_arg\<rparr>;
          self = (if \<not> is_interim_arg
                  then flush_transcript (self\<lparr>transcript := transcript self @ [entry]\<rparr>)
                  else self);
          self = self\<lparr>interim_transcript :=
                        interim_transcript self @
                        [\<lparr>ts_ms = ts_ms entry, ts = ts entry, role = role entry,
                          content = content entry, is_interim = is_interim_arg\<rparr>]\<rparr>
      in flush_interim_transcript self)"

definition append_coach_turn ::
  "clock_reading \<Rightarrow> SessionLogger \<Rightarrow> int \<Rightarrow> string \<Rightarrow> string \<Rightarrow> json \<Rightarrow> SessionLogger" where
  "append_coach_turn now self turn_index_arg customer_message_arg representative_response_arg
       evaluation =
     (let entry = \<lparr>turn_ts_ms = fst now, turn_ts = snd now, turn = turn_index_arg,
                   interaction = \<lparr>customer = customer_message_arg,
                                  representative = representative_response_arg\<rparr>,
                   coaching = evaluation\<rparr>
      in flush_per_turn (self\<lparr>coach_turns := coach_turns self @ [entry]\<rparr>))"

definition snapshot_transcript :: "SessionLogger \<Rightarrow> SessionLogger" where
  "snapshot_transcript self = flush_transcript self"

definition write_session_eval :: "SessionLogger \<Rightarrow> string \<Rightarrow> SessionLogger" where
  "write_session_eval self markdown_content = self\<lparr>session_eval_file := Some markdown_content\<rparr>"

text \<open>
  \<open>get_transcript_for_assessment\<close> gives the entries of the final transcript; the dicts
  made of them by \<open>asdict\<close> are formed where the list is handed to the coach.
\<close>

definition get_transcript_for_assessment :: "SessionLogger \<Rightarrow> TranscriptEntry list" where
  "get_transcript_for_assessment self = transcript self"

text \<open>A sequence of calls of \<open>append_transcript\<close>: clock reading, role, content, flag.\<close>

type_synonym transcript_call = "clock_reading \<times> string \<times> string \<times> bool"

fun append_transcripts :: "SessionLogger \<Rightarrow> transcript_call list \<Rightarrow> SessionLogger" where
  "append_transcripts self [] = self"
| "append_transcripts self ((now, role_arg, content_arg, is_interim_arg) # calls) =
     append_transcripts (append_transcript now self role_arg content_arg is_interim_arg) calls"

definition final_entry :: "transcript_call \<Rightarrow> TranscriptEntry" where
  "final_entry c =
     (case c of (now, role_arg, content_arg, is_interim_arg) \<Rightarrow>
        \<lparr>ts_ms = fst now, ts = snd now, role = role_arg, content = content_arg\<rparr>)"

definition flagged_entry :: "transcript_call \<Rightarrow> InterimTranscriptEntry" where
  "flagged_entry c =
     (case c of (now, role_arg, content_arg, is_interim_arg) \<Rightarrow>
        \<lparr>ts_ms = fst now, ts = snd now, role = role_arg, content = content_arg,
         is_interim = is_interim_arg\<rparr>)"

definition call_is_interim :: "transcript_call \<Rightarrow> bool" where
  "call_is_interim c = (case c of (now, role_arg, content_arg, is_interim_arg) \<Rightarrow> is_interim_arg)"

section \<open>bot.py: the handlers\<close>

text \<open>The objects that the handlers of \<^verbatim>\<open>run_bot\<close> close over.\<close>

record Session =
  session_logger :: SessionLogger
  conversation_aggregator :: ConversationAggregator
  conv_state :: ConversationState
  coach :: GeminiCoach

text \<open>
  What both handlers do with a completed turn, inside a \<^verbatim>\<open>try\<close> statement that catches
  what \<open>ensure_started\<close> and \<open>evaluate_turn\<close> raise: what the calls have changed by then
  stays changed.  The per-turn entry is written only when the evaluation has a true
  \<open>parsed\<close> value.
\<close>

definition evaluate_completed_turn ::
  "GenerativeModel \<Rightarrow> Session \<Rightarrow> string \<times> string \<Rightarrow> clock_reading \<Rightarrow> Session" where
  "evaluate_completed_turn genai s turn_pair now_turn =
     (let customer_prompt = fst turn_pair; representative_response = snd turn_pair
      in case ensure_started genai (coach s) of
           Inl e \<Rightarrow> s
         | Inr started \<Rightarrow>
             (let s = s\<lparr>coach := started\<rparr>;
                  (state, result) =
                    evaluate_turn (coach s) (conv_state s) customer_prompt representative_response;
                  s = s\<lparr>conv_state := state\<rparr>
              in case result of
                   Raised e \<Rightarrow> s
                 | Returned eval_res \<Rightarrow>
                     (case eval_res of
                        None \<Rightarrow> s
                      | Some ev \<Rightarrow>
                          if py_truthy (parsed ev) then
                            s\<lparr>session_logger :=
                                append_coach_turn now_turn (session_logger s)
                                  (turn_index (conv_state s)) customer_prompt
                                  representative_response (parsed ev)\<rparr>
                          else s)))"

text \<open>
  One message of a frame: role and content, with the two clock readings its handling may
  take (for the transcript entry and for the per-turn entry).
\<close>

type_synonym frame_message = "(string \<times> string) \<times> clock_reading \<times> clock_reading"

definition handle_message :: "GenerativeModel \<Rightarrow> Session \<Rightarrow> frame_message \<Rightarrow> Session" where
  "handle_message genai s m =
     (case m of ((role_m, content_m), now_transcript, now_turn) \<Rightarrow>
        (let s = s\<lparr>session_logger :=
                     append_transcript now_transcript (session_logger s) role_m content_m False\<rparr>;
             (aggregator, turn_pair) = add_message (conversation_aggregator s) role_m content_m;
             s = s\<lparr>conversation_aggregator := aggregator\<rparr>
         in case turn_pair of
              None \<Rightarrow> s
            | Some pair \<Rightarrow> evaluate_completed_turn genai s pair now_turn))"

definition on_transcript_update :: "GenerativeModel \<Rightarrow> Session \<Rightarrow> frame_message list \<Rightarrow> Session" where
  "on_transcript_update genai s messages = foldl (handle_message genai) s messages"

text \<open>
  The \<^verbatim>\<open>try\<close> statement of the disconnect handler that generates the session
  assessment from the final-only transcript and writes it, when there is a transcript and
  the coach can be started.  Its handler logs an exception of the coach; nothing is
  written then.
\<close>

definition write_session_assessment :: "GenerativeModel \<Rightarrow> Session \<Rightarrow> Session" where
  "write_session_assessment genai s =
     (let transcript = map asdict (get_transcript_for_assessment (session_logger s))
      in if transcript \<noteq> [] then
           (case ensure_started genai (coach s) of
              Inl e \<Rightarrow> s
            | Inr started \<Rightarrow>
                (let s = s\<lparr>coach := started\<rparr>
                 in case generate_session_assessment (coach s) (conv_state s) transcript of
                      Raised e \<Rightarrow> s
                    | Returned assessment_markdown \<Rightarrow>
                        s\<lparr>session_logger :=
                            write_session_eval (session_logger s) assessment_markdown\<rparr>))
         else s)"

text \<open>
  \<open>on_client_disconnected\<close>: the pending turn is flushed and evaluated, the transcript is
  written, and the session assessment is generated and written.
\<close>

definition on_client_disconnected :: "GenerativeModel \<Rightarrow> Session \<Rightarrow> clock_reading \<Rightarrow> Session" where
  "on_client_disconnected genai s now_turn =
     (let (aggregator, final_turn) = flush_pending_turn (conversation_aggregator s);
          s = s\<lparr>conversation_aggregator := aggregator\<rparr>;
          s = (case final_turn of
                 None \<Rightarrow> s
               | Some pair \<Rightarrow> evaluate_completed_turn genai s pair now_turn);
          s = s\<lparr>session_logger := snapshot_transcript (session_logger s)\<rparr>
      in write_session_assessment genai s)"

text \<open>The transcript entry that the handler records for a message.\<close>

definition message_entry :: "frame_message \<Rightarrow> TranscriptEntry" where
  "message_entry m = final_entry (fst (snd m), fst (fst m), snd (fst m), False)"

text \<open>The per-turn entry without its time stamps, and the same four values of an evaluation.\<close>

definition turn_record :: "CoachTurnEntry \<Rightarrow> int \<times> string \<times> string \<times> json" where
  "turn_record e = (turn e, customer (interaction e), representative (interaction e), coaching e)"

definition evaluation_record :: "TurnEvaluation \<Rightarrow> int \<times> string \<times> string \<times> json" where
  "evaluation_record ev =
     (turn_number ev, customer_message ev, representative_response ev, parsed ev)"

section \<open>Example values\<close>

text \<open>
  A repository entry for the coach's main system prompt and one for the session
  assessment, a coach over them, and models with a fixed outcome.  The achievements of
  \<open>session_assessment_prompt\<close> are given as strings; those of \<open>achievement_records_prompt\<close>
  are given as objects with a name and a description.
\<close>

definition main_system_prompt :: Prompt where
  "main_system_prompt =
     \<lparr>prompt_id = ''coach_main'', name = ''Coach Main System Prompt'', entity = ''coach_agent'',
      prompt_version = ''1.0.0'', date_updated = [],
      prompt_content = [(py_str ''system'', JString (py_str ''You are a coach.''))],
      persona = None, prompt_scenario = None\<rparr>"

definition session_assessment_prompt :: Prompt where
  "session_assessment_prompt =
     \<lparr>prompt_id = ''coach_assessment'', name = ''Session Assessment'', entity = ''coach_agent'',
      prompt_version = ''1.0.0'', date_updated = [],
      prompt_content =
        [(py_str ''instruction'', JString (py_str ''Assess the session.'')),
         (py_str ''achievements'', JArray [JString (py_str ''Empathy Champion'')])],
      persona = None, prompt_scenario = None\<rparr>"

definition achievement_records_prompt :: Prompt where
  "achievement_records_prompt =
     \<lparr>prompt_id = ''coach_assessment'', name = ''Session Assessment'', entity = ''coach_agent'',
      prompt_version = ''1.0.0'', date_updated = [],
      prompt_content =
        [(py_str ''instruction'', JString (py_str ''Assess the session.'')),
         (py_str ''achievements'',
          JArray [JObject [(py_str ''name'', JString (py_str ''Empathy Champion'')),
                           (py_str ''description'', JString (py_str ''Showed empathy''))]])],
      persona = None, prompt_scenario = None\<rparr>"

definition constant_model :: "model_outcome \<Rightarrow> GenerativeModel" where
  "constant_model out = (\<lambda>request. out)"

definition text_response :: "string \<Rightarrow> model_outcome" where
  "text_response t =
     Responded (Some \<lparr>candidates = [\<lparr>finish_reason = Some 1\<rparr>], response_text = t\<rparr>)"

definition example_coach :: "Prompt list \<Rightarrow> model_outcome \<Rightarrow> GeminiCoach" where
  "example_coach repo out =
     \<lparr>prompts_repo = repo, model = Some (constant_model out), api_key = Some ''key''\<rparr>"

definition example_session :: "Prompt list \<Rightarrow> model_outcome \<Rightarrow> Session" where
  "example_session repo out =
     \<lparr>session_logger = SessionLogger_init, conversation_aggregator = aggregator_init,
      conv_state = ConversationState_init ''card'' ''Sarah Chen'',
      coach = example_coach repo out\<rparr>"

definition example_entry :: py_dict where
  "example_entry =
     asdict \<lparr>ts_ms = 0, ts = ''00_00_00_01_01_2025'', role = ''user'', content = ''Hello''\<rparr>"

section \<open>Properties of the aggregator\<close>

lemma py_strip_Nil: "py_strip [] = []"
  by (simp add: py_strip_def)

lemma add_message_assistant_flush:
  assumes "py_strip content_arg \<noteq> []"
  shows "snd (add_message self ''assistant'' content_arg) = snd (flush_pending_turn self)"
    and "completed_turns (fst (add_message self ''assistant'' content_arg)) =
         completed_turns (fst (flush_pending_turn self))"
    and "turn_count (fst (add_message self ''assistant'' content_arg)) =
         turn_count (fst (flush_pending_turn self))"
proof -
  from assms have "content_arg \<noteq> []" by (auto simp: py_strip_Nil)
  with assms
  show "snd (add_message self ''assistant'' content_arg) = snd (flush_pending_turn self)"
    and "completed_turns (fst (add_message self ''assistant'' content_arg)) =
         completed_turns (fst (flush_pending_turn self))"
    and "turn_count (fst (add_message self ''assistant'' content_arg)) =
         turn_count (fst (flush_pending_turn self))"
    by (simp_all add: add_message_def flush_pending_turn_def Let_def)
qed

text \<open>
  C1, as amended.  After any sequence of events fed to the aggregator, from any state,
  \<open>flush_pending_turn\<close> returns what \<open>add_message\<close> returns for a subsequent customer
  message whose content is not blank (it has a character that is not whitespace): the same
  pair, or nothing in both cases; and both record the same completed turns.  A message of
  whitespace only is not empty, and \<open>add_message\<close> skips it.
\<close>

theorem flush_next_trigger_equivalence:
  assumes "py_strip content_arg \<noteq> []"
  shows "snd (flush_pending_turn (fst (feed_events self events))) =
           snd (add_message (fst (feed_events self events)) ''assistant'' content_arg)
         \<and> completed_turns (fst (flush_pending_turn (fst (feed_events self events)))) =
           completed_turns
             (fst (add_message (fst (feed_events self events)) ''assistant'' content_arg))"
  using add_message_assistant_flush [OF assms, of "fst (feed_events self events)"] by simp

theorem flush_next_trigger_equivalence_witness:
  "py_strip ''Bye'' \<noteq> []
   \<and> snd (flush_pending_turn
           (fst (feed_events aggregator_init [(''assistant'', ''Hi''), (''user'', ''Yo'')])))
       = Some (''Hi'', ''Yo'')
   \<and> snd (add_message
           (fst (feed_events aggregator_init [(''assistant'', ''Hi''), (''user'', ''Yo'')]))
           ''assistant'' ''Bye'')
       = Some (''Hi'', ''Yo'')"
proof -
  have h: "py_strip ''Bye'' \<noteq> []" by code_simp
  have e: "snd (flush_pending_turn
                 (fst (feed_events aggregator_init [(''assistant'', ''Hi''), (''user'', ''Yo'')])))
           = Some (''Hi'', ''Yo'')"
    by code_simp
  from flush_next_trigger_equivalence
         [OF h, of aggregator_init "[(''assistant'', ''Hi''), (''user'', ''Yo'')]"] e h
  show ?thesis by simp
qed

text \<open>
  With a prompt and a fragment pending, the flush returns the pair, and a subsequent
  customer message that consists of one space, which is not empty, returns nothing.
\<close>

theorem flush_next_trigger_blank_counterexample:
  "'' '' \<noteq> []
   \<and> snd (flush_pending_turn
           (fst (feed_events aggregator_init [(''assistant'', ''Hi''), (''user'', ''Yo'')])))
       = Some (''Hi'', ''Yo'')
   \<and> snd (add_message
           (fst (feed_events aggregator_init [(''assistant'', ''Hi''), (''user'', ''Yo'')]))
           ''assistant'' '' '')
       = None"
  by code_simp

text \<open>
  C2.  The four events (customer "Hello, I lost my card"), (representative "Okay"),
  (representative "Let me help"), (customer "Thanks, what now"), fed in order to a new
  aggregator, complete exactly one turn, at the fourth event: its customer prompt is
  "Hello, I lost my card" and its aggregated response is "Okay Let me help".  Afterwards
  the pending prompt is "Thanks, what now" with no fragment, and \<open>flush_pending_turn\<close>
  returns nothing and changes nothing.
\<close>

theorem end_to_end_scenario:
  "feed_events aggregator_init
     [(''assistant'', ''Hello, I lost my card''), (''user'', ''Okay''),
      (''user'', ''Let me help''), (''assistant'', ''Thanks, what now'')]
   = (\<lparr>pending_customer_prompt = Some ''Thanks, what now'', pending_rep_fragments = [],
       completed_turns = [\<lparr>customer_prompt = Some ''Hello, I lost my card'',
                            representative_responses = [''Okay'', ''Let me help'']\<rparr>],
       turn_count = 1\<rparr>,
      [None, None, None, Some (''Hello, I lost my card'', ''Okay Let me help'')])
   \<and> get_aggregated_representative_response
        \<lparr>customer_prompt = Some ''Hello, I lost my card'',
         representative_responses = [''Okay'', ''Let me help'']\<rparr> = ''Okay Let me help''
   \<and> flush_pending_turn
        \<lparr>pending_customer_prompt = Some ''Thanks, what now'', pending_rep_fragments = [],
         completed_turns = [\<lparr>customer_prompt = Some ''Hello, I lost my card'',
                              representative_responses = [''Okay'', ''Let me help'']\<rparr>],
         turn_count = 1\<rparr>
     = (\<lparr>pending_customer_prompt = Some ''Thanks, what now'', pending_rep_fragments = [],
         completed_turns = [\<lparr>customer_prompt = Some ''Hello, I lost my card'',
                              representative_responses = [''Okay'', ''Let me help'']\<rparr>],
         turn_count = 1\<rparr>, None)"
  by code_simp

lemma add_message_new_turns:
  "\<exists>ts. completed_turns (fst (add_message self role_arg content_arg)) = completed_turns self @ ts
        \<and> list_all well_formed_turn ts"
  by (cases "pending_customer_prompt self")
     (auto simp: add_message_def Let_def well_formed_turn_def)

lemma flush_new_turns:
  "\<exists>ts. completed_turns (fst (flush_pending_turn self)) = completed_turns self @ ts
        \<and> list_all well_formed_turn ts"
  by (cases "pending_customer_prompt self")
     (auto simp: flush_pending_turn_def Let_def well_formed_turn_def)

lemma apply_op_well_formed:
  assumes "list_all well_formed_turn (completed_turns self)"
  shows "list_all well_formed_turn (completed_turns (apply_aggregator_op self op))"
proof (cases op)
  case (AddMessage r c)
  obtain ts where "completed_turns (fst (add_message self r c)) = completed_turns self @ ts"
    and "list_all well_formed_turn ts" using add_message_new_turns by blast
  with assms AddMessage show ?thesis by simp
next
  case FlushPendingTurn
  obtain ts where "completed_turns (fst (flush_pending_turn self)) = completed_turns self @ ts"
    and "list_all well_formed_turn ts" using flush_new_turns by blast
  with assms FlushPendingTurn show ?thesis by simp
next
  case Reset
  then show ?thesis by (simp add: reset_def)
qed

lemma run_ops_well_formed:
  "list_all well_formed_turn (completed_turns self) \<Longrightarrow>
   list_all well_formed_turn (completed_turns (run_aggregator_ops self ops))"
  unfolding run_aggregator_ops_def
  by (induction ops arbitrary: self) (simp_all add: apply_op_well_formed)

text \<open>
  C7.  Every turn in \<open>completed_turns\<close> has a non-empty customer prompt and at least one
  representative fragment: this holds after any sequence of operations (\<open>add_message\<close>,
  \<open>flush_pending_turn\<close>, \<open>reset\<close>) on a new aggregator, and whatever the state, the turns
  that one call of \<open>add_message\<close> or of \<open>flush_pending_turn\<close> appends are of this form.
\<close>

theorem turn_creation_invariant:
  "list_all well_formed_turn (completed_turns (run_aggregator_ops aggregator_init ops))
   \<and> list_all well_formed_turn
       (drop (length (completed_turns self))
          (completed_turns (fst (add_message self role_arg content_arg))))
   \<and> list_all well_formed_turn
       (drop (length (completed_turns self)) (completed_turns (fst (flush_pending_turn self))))"
proof -
  have "list_all well_formed_turn (completed_turns (run_aggregator_ops aggregator_init ops))"
    by (rule run_ops_well_formed) (simp add: aggregator_init_def)
  moreover obtain ts
    where "completed_turns (fst (add_message self role_arg content_arg)) = completed_turns self @ ts"
      and "list_all well_formed_turn ts" using add_message_new_turns by blast
  moreover obtain us
    where "completed_turns (fst (flush_pending_turn self)) = completed_turns self @ us"
      and "list_all well_formed_turn us" using flush_new_turns by blast
  ultimately show ?thesis by simp
qed

theorem turn_creation_invariant_witness:
  "completed_turns
     (run_aggregator_ops aggregator_init
        [AddMessage ''assistant'' ''Hi'', AddMessage ''user'' ''Yo'', FlushPendingTurn])
   = [\<lparr>customer_prompt = Some ''Hi'', representative_responses = [''Yo'']\<rparr>]
   \<and> well_formed_turn \<lparr>customer_prompt = Some ''Hi'', representative_responses = [''Yo'']\<rparr>"
proof -
  have e: "completed_turns
             (run_aggregator_ops aggregator_init
                [AddMessage ''assistant'' ''Hi'', AddMessage ''user'' ''Yo'', FlushPendingTurn])
           = [\<lparr>customer_prompt = Some ''Hi'', representative_responses = [''Yo'']\<rparr>]"
    by code_simp
  from turn_creation_invariant
         [of "[AddMessage ''assistant'' ''Hi'', AddMessage ''user'' ''Yo'', FlushPendingTurn]"
             aggregator_init "''user''" "''Yo''"] e
  show ?thesis by simp
qed

section \<open>Properties of the session logger\<close>

lemma append_transcript_logs:
  "interim_transcript (append_transcript now self r c b) =
     interim_transcript self @ [flagged_entry (now, r, c, b)]"
  "transcript (append_transcript now self r c b) =
     transcript self @ (if b then [] else [final_entry (now, r, c, b)])"
  by (simp_all add: append_transcript_def flush_transcript_def flush_interim_transcript_def
      Let_def flagged_entry_def final_entry_def)

lemma append_transcripts_logs:
  "interim_transcript (append_transcripts self calls) =
     interim_transcript self @ map flagged_entry calls
   \<and> transcript (append_transcripts self calls) =
     transcript self @ map final_entry (filter (\<lambda>c. \<not> call_is_interim c) calls)"
proof (induction calls arbitrary: self)
  case Nil
  show ?case by simp
next
  case (Cons call calls)
  obtain now r c b where call: "call = (now, r, c, b)" by (cases call) auto
  show ?case
    by (simp add: call Cons.IH append_transcript_logs call_is_interim_def)
qed

text \<open>
  C8.  For every sequence of calls of \<open>append_transcript\<close>, the interim-inclusive log
  grows by one flagged entry per call, in order; the final-only log grows by the entries
  of the calls with \<open>is_interim = False\<close>, in order; and on a new logger
  \<open>get_transcript_for_assessment\<close> returns exactly the entries of the calls with
  \<open>is_interim = False\<close>, in arrival order, so no interim entry is among them.
\<close>

theorem interim_routing:
  "interim_transcript (append_transcripts self calls) =
     interim_transcript self @ map flagged_entry calls
   \<and> transcript (append_transcripts self calls) =
     transcript self @ map final_entry (filter (\<lambda>c. \<not> call_is_interim c) calls)
   \<and> get_transcript_for_assessment (append_transcripts SessionLogger_init calls) =
     map final_entry (filter (\<lambda>c. \<not> call_is_interim c) calls)"
  using append_transcripts_logs [of self calls] append_transcripts_logs [of SessionLogger_init calls]
  by (simp add: get_transcript_for_assessment_def SessionLogger_init_def)

section \<open>Properties of the decoder\<close>

lemma skip_ws_length: "length (skip_ws s) \<le> length s"
  by (simp add: skip_ws_def length_dropWhile_le)

lemma cons_result_Some:
  "cons_result c x = Some (str, r) \<Longrightarrow> \<exists>str'. x = Some (str', r) \<and> str = c # str'"
  by (cases x) (auto simp: cons_result_def)

lemma scanstring_shorter: "scanstring s = Some (str, r) \<Longrightarrow> length r < length s"
proof (induction "length s" arbitrary: s str r rule: less_induct)
  case less
  show ?case
  proof (cases s)
    case Nil
    with less.prems show ?thesis by simp
  next
    case (Cons c cs)
    have "r = cs \<or> (\<exists>u t. cons_result u (scanstring t) = Some (str, r) \<and> length t \<le> length cs)"
      using less.prems unfolding Cons
      by (simp split: if_splits option.splits list.splits) force+
    then show ?thesis
    proof
      assume "r = cs"
      with Cons show ?thesis by simp
    next
      assume "\<exists>u t. cons_result u (scanstring t) = Some (str, r) \<and> length t \<le> length cs"
      then obtain u t where c: "cons_result u (scanstring t) = Some (str, r)"
        and t: "length t \<le> length cs" by blast
      from cons_result_Some [OF c] obtain str' where "scanstring t = Some (str', r)"
        by blast
      from less.hyps [OF _ this] t Cons show ?thesis by simp
    qed
  qed
qed

lemma match_integer_shorter: "match_integer s = Some (i, r) \<Longrightarrow> length r < length s"
  by (auto simp: match_integer_def Let_def split: list.splits if_splits
      intro: le_imp_less_Suc less_SucI length_dropWhile_le)

lemma match_frac_length: "match_frac s = (f, r) \<Longrightarrow> length r \<le> length s"
  by (auto simp: match_frac_def split: list.splits if_splits intro: le_SucI length_dropWhile_le)

lemma match_exp_length: "match_exp s = (e, r) \<Longrightarrow> length r \<le> length s"
  by (auto simp: match_exp_def Let_def split: list.splits if_splits prod.splits
      intro: le_SucI length_dropWhile_le)

lemma match_number_shorter: "match_number s = Some (v, r) \<Longrightarrow> length r < length s"
proof -
  assume a: "match_number s = Some (v, r)"
  then obtain i s1 where i: "match_integer s = Some (i, s1)"
    by (auto simp: match_number_def split: option.splits)
  obtain f s2 where f: "match_frac s1 = (f, s2)" by (cases "match_frac s1")
  obtain e s3 where e: "match_exp s2 = (e, s3)" by (cases "match_exp s2")
  from a i f e have "r = s3" by (auto simp: match_number_def split: if_splits)
  with match_integer_shorter [OF i] match_frac_length [OF f] match_exp_length [OF e]
  show ?thesis by simp
qed


lemma starts_with_length: "starts_with s p \<Longrightarrow> length p \<le> length s"
  by (auto simp: starts_with_def dest: arg_cong [where f = length])

lemma scan_once_leaf_fuel:
  assumes "\<And>cs d ds. s = CHR ''['' # cs \<Longrightarrow> skip_ws cs = d # ds \<Longrightarrow> d = CHR '']''"
    and "\<And>cs ds. s = CHR ''{'' # cs \<Longrightarrow> skip_ws cs \<noteq> CHR 0x22 # ds"
  shows "scan_once (Suc m) s = scan_once (Suc n) s"
  using assms by (auto split: list.splits option.splits)

lemma scan_once_leaf_shorter:
  assumes "\<And>cs d ds. s = CHR ''['' # cs \<Longrightarrow> skip_ws cs = d # ds \<Longrightarrow> d = CHR '']''"
    and "\<And>cs ds. s = CHR ''{'' # cs \<Longrightarrow> skip_ws cs \<noteq> CHR 0x22 # ds"
    and "scan_once (Suc m) s = Some (v, r)"
  shows "length r < length s"
proof (cases s)
  case Nil
  with assms(3) show ?thesis by simp
next
  case (Cons c cs)
  have ws: "skip_ws cs = d # ds \<Longrightarrow> length ds < length s" for d ds
    using skip_ws_length [of cs] Cons by simp
  consider (str) "c = CHR 0x22" | (obj) "c \<noteq> CHR 0x22" "c = CHR ''{''"
    | (arr) "c \<noteq> CHR 0x22" "c \<noteq> CHR ''{''" "c = CHR ''[''"
    | (other) "c \<noteq> CHR 0x22" "c \<noteq> CHR ''{''" "c \<noteq> CHR ''[''" by blast
  then show ?thesis
  proof cases
    case str
    with assms(3) Cons obtain x where "scanstring cs = Some (x, r)"
      by (auto split: option.splits)
    from scanstring_shorter [OF this] Cons show ?thesis by simp
  next
    case obj
    with assms(2) [of cs] assms(3) Cons ws show ?thesis
      by (auto split: list.splits if_splits)
  next
    case arr
    with assms(1) [of cs] assms(3) Cons ws show ?thesis
      by (auto split: list.splits if_splits)
  next
    case other
    with assms(3) Cons
    have "(starts_with s ''null'' \<and> r = drop 4 s) \<or> (starts_with s ''true'' \<and> r = drop 4 s)
        \<or> (starts_with s ''false'' \<and> r = drop 5 s) \<or> match_number s = Some (v, r)
        \<or> (starts_with s ''NaN'' \<and> r = drop 3 s) \<or> (starts_with s ''Infinity'' \<and> r = drop 8 s)
        \<or> (starts_with s ''-Infinity'' \<and> r = drop 9 s)"
      by (auto split: if_splits option.splits)
    then show ?thesis
      using Cons by (auto dest!: starts_with_length match_number_shorter)
  qed
qed


lemma scan_once_step:
  assumes IHa: "\<And>vals s v r. JSONArray m vals s = Some (v, r) \<Longrightarrow>
            length r < length s \<and> (\<forall>n. 2 * (length s - length r) \<le> n \<longrightarrow> JSONArray n vals s = Some (v, r))"
    and IHo: "\<And>pairs s v r. JSONObject m pairs s = Some (v, r) \<Longrightarrow>
            length r < length s \<and> (\<forall>n. 2 * (length s - length r) \<le> n \<longrightarrow> JSONObject n pairs s = Some (v, r))"
    and res: "scan_once (Suc m) s = Some (v, r)"
  shows "length r < length s \<and> (\<forall>n. 2 * (length s - length r) \<le> n \<longrightarrow> scan_once n s = Some (v, r))"
proof -
  consider (arr) cs d ds where "s = CHR ''['' # cs" "skip_ws cs = d # ds" "d \<noteq> CHR '']''"
    | (obj) cs ds where "s = CHR ''{'' # cs" "skip_ws cs = CHR 0x22 # ds"
    | (leaf) "\<And>cs d ds. s = CHR ''['' # cs \<Longrightarrow> skip_ws cs = d # ds \<Longrightarrow> d = CHR '']''"
             "\<And>cs ds. s = CHR ''{'' # cs \<Longrightarrow> skip_ws cs \<noteq> CHR 0x22 # ds"
    by blast
  then show ?thesis
  proof cases
    case arr
    have step: "scan_once (Suc k) s = JSONArray k [] (d # ds)" for k
      using arr by simp
    from res step have "JSONArray m [] (d # ds) = Some (v, r)" by simp
    from IHa [OF this] have short: "length r < length (d # ds)"
      and fuel: "\<And>n. 2 * (length (d # ds) - length r) \<le> n \<Longrightarrow> JSONArray n [] (d # ds) = Some (v, r)"
      by blast+
    have len: "length (d # ds) < length s"
      using skip_ws_length [of cs] arr by simp
    have "scan_once n s = Some (v, r)" if n: "2 * (length s - length r) \<le> n" for n
    proof -
      from short len n obtain n' where n': "n = Suc n'" by (cases n) auto
      with n short len have "2 * (length (d # ds) - length r) \<le> n'" by simp
      from fuel [OF this] step n' show ?thesis by simp
    qed
    with short len show ?thesis by simp
  next
    case obj
    have step: "scan_once (Suc k) s = JSONObject k [] ds" for k
      using obj by simp
    from res step have "JSONObject m [] ds = Some (v, r)" by simp
    from IHo [OF this] have short: "length r < length ds"
      and fuel: "\<And>n. 2 * (length ds - length r) \<le> n \<Longrightarrow> JSONObject n [] ds = Some (v, r)"
      by blast+
    have len: "length ds < length s"
      using skip_ws_length [of cs] obj by simp
    have "scan_once n s = Some (v, r)" if n: "2 * (length s - length r) \<le> n" for n
    proof -
      from short len n obtain n' where n': "n = Suc n'" by (cases n) auto
      with n short len have "2 * (length ds - length r) \<le> n'" by simp
      from fuel [OF this] step n' show ?thesis by simp
    qed
    with short len show ?thesis by simp
  next
    case leaf
    from scan_once_leaf_shorter [OF leaf res] have short: "length r < length s" .
    have "scan_once n s = Some (v, r)" if n: "2 * (length s - length r) \<le> n" for n
    proof -
      from short n obtain n' where n': "n = Suc n'" by (cases n) auto
      from scan_once_leaf_fuel [OF leaf, where m = m and n = n'] res n' show ?thesis by simp
    qed
    with short show ?thesis by simp
  qed
qed

lemma JSONArray_step:
  assumes IHs: "\<And>s v r. scan_once m s = Some (v, r) \<Longrightarrow>
            length r < length s \<and> (\<forall>n. 2 * (length s - length r) \<le> n \<longrightarrow> scan_once n s = Some (v, r))"
    and IHa: "\<And>vals s v r. JSONArray m vals s = Some (v, r) \<Longrightarrow>
            length r < length s \<and> (\<forall>n. 2 * (length s - length r) \<le> n \<longrightarrow> JSONArray n vals s = Some (v, r))"
    and res: "JSONArray (Suc m) vals s = Some (v, r)"
  shows "length r < length s \<and> (\<forall>n. 2 * (length s - length r) \<le> n \<longrightarrow> JSONArray n vals s = Some (v, r))"
proof -
  from res obtain x rest where x: "scan_once m s = Some (x, rest)"
    by (auto split: option.splits)
  from IHs [OF x] have xs: "length rest < length s"
    and xf: "\<And>n. 2 * (length s - length rest) \<le> n \<Longrightarrow> scan_once n s = Some (x, rest)" by blast+
  from res x obtain d ds where ws: "skip_ws rest = d # ds"
    by (auto split: list.splits)
  have dl: "length ds < length rest" using skip_ws_length [of rest] ws by simp
  show ?thesis
  proof (cases "d = CHR '']''")
    case True
    with res x ws have r: "r = ds" "v = JArray (vals @ [x])" by simp_all
    have "JSONArray n vals s = Some (v, r)" if n: "2 * (length s - length r) \<le> n" for n
    proof -
      from xs dl r n obtain n' where n': "n = Suc n'" by (cases n) auto
      with n xs dl r have "2 * (length s - length rest) \<le> n'" by simp
      from xf [OF this] n' ws True r show ?thesis by simp
    qed
    with xs dl r show ?thesis by simp
  next
    case False
    with res x ws have comma: "d = CHR '',''"
      and rec: "JSONArray m (vals @ [x]) (skip_ws ds) = Some (v, r)"
      by (auto split: if_splits)
    from IHa [OF rec] have rs: "length r < length (skip_ws ds)"
      and rf: "\<And>n. 2 * (length (skip_ws ds) - length r) \<le> n \<Longrightarrow>
                JSONArray n (vals @ [x]) (skip_ws ds) = Some (v, r)" by blast+
    have sl: "length (skip_ws ds) \<le> length ds" by (rule skip_ws_length)
    have "JSONArray n vals s = Some (v, r)" if n: "2 * (length s - length r) \<le> n" for n
    proof -
      from xs dl rs sl n obtain n' where n': "n = Suc n'" by (cases n) auto
      with n xs dl rs sl have a: "2 * (length s - length rest) \<le> n'"
        and b: "2 * (length (skip_ws ds) - length r) \<le> n'" by simp_all
      from xf [OF a] rf [OF b] n' ws False comma show ?thesis by simp
    qed
    with xs dl rs sl show ?thesis by simp
  qed
qed

lemma JSONObject_step:
  assumes IHs: "\<And>s v r. scan_once m s = Some (v, r) \<Longrightarrow>
            length r < length s \<and> (\<forall>n. 2 * (length s - length r) \<le> n \<longrightarrow> scan_once n s = Some (v, r))"
    and IHo: "\<And>pairs s v r. JSONObject m pairs s = Some (v, r) \<Longrightarrow>
            length r < length s \<and> (\<forall>n. 2 * (length s - length r) \<le> n \<longrightarrow> JSONObject n pairs s = Some (v, r))"
    and res: "JSONObject (Suc m) pairs s = Some (v, r)"
  shows "length r < length s \<and> (\<forall>n. 2 * (length s - length r) \<le> n \<longrightarrow> JSONObject n pairs s = Some (v, r))"
proof -
  from res obtain key rest where key: "scanstring s = Some (key, rest)"
    by (auto split: option.splits)
  from scanstring_shorter [OF key] have ks: "length rest < length s" .
  from res key obtain cs where colon: "skip_ws rest = CHR '':'' # cs"
    by (auto split: list.splits if_splits)
  have cl: "length cs < length rest" using skip_ws_length [of rest] colon by simp
  from res key colon obtain x rest' where x: "scan_once m (skip_ws cs) = Some (x, rest')"
    by (auto split: option.splits)
  from IHs [OF x] have xs: "length rest' < length (skip_ws cs)"
    and xf: "\<And>n. 2 * (length (skip_ws cs) - length rest') \<le> n \<Longrightarrow>
               scan_once n (skip_ws cs) = Some (x, rest')" by blast+
  have wl: "length (skip_ws cs) \<le> length cs" by (rule skip_ws_length)
  from res key colon x obtain d ds where ws: "skip_ws rest' = d # ds"
    by (auto split: list.splits)
  have dl: "length ds < length rest'" using skip_ws_length [of rest'] ws by simp
  show ?thesis
  proof (cases "d = CHR ''}''")
    case True
    with res key colon x ws have r: "r = ds" "v = JObject (dict_setitem pairs key x)" by simp_all
    have "JSONObject n pairs s = Some (v, r)" if n: "2 * (length s - length r) \<le> n" for n
    proof -
      from ks cl xs wl dl r n obtain n' where n': "n = Suc n'" by (cases n) auto
      with n ks cl xs wl dl r have "2 * (length (skip_ws cs) - length rest') \<le> n'" by simp
      from xf [OF this] n' key colon ws True r show ?thesis by simp
    qed
    with ks cl xs wl dl r show ?thesis by simp
  next
    case False
    with res key colon x ws have comma: "d = CHR '',''"
      by (auto split: if_splits)
    with res key colon x ws False obtain qs where q: "skip_ws ds = CHR 0x22 # qs"
      and rec: "JSONObject m (dict_setitem pairs key x) qs = Some (v, r)"
      by (auto split: list.splits if_splits)
    from IHo [OF rec] have rs: "length r < length qs"
      and rf: "\<And>n. 2 * (length qs - length r) \<le> n \<Longrightarrow>
                JSONObject n (dict_setitem pairs key x) qs = Some (v, r)" by blast+
    have ql: "length qs < length ds" using skip_ws_length [of ds] q by simp
    have "JSONObject n pairs s = Some (v, r)" if n: "2 * (length s - length r) \<le> n" for n
    proof -
      from ks cl xs wl dl rs ql n obtain n' where n': "n = Suc n'" by (cases n) auto
      with n ks cl xs wl dl rs ql have a: "2 * (length (skip_ws cs) - length rest') \<le> n'"
        and b: "2 * (length qs - length r) \<le> n'" by simp_all
      from xf [OF a] rf [OF b] n' key colon ws False comma q show ?thesis by simp
    qed
    with ks cl xs wl dl rs ql show ?thesis by simp
  qed
qed

lemma scanner_fuel:
  "(\<forall>s v r. scan_once m s = Some (v, r) \<longrightarrow>
      length r < length s \<and> (\<forall>n. 2 * (length s - length r) \<le> n \<longrightarrow> scan_once n s = Some (v, r)))
   \<and> (\<forall>vals s v r. JSONArray m vals s = Some (v, r) \<longrightarrow>
      length r < length s \<and> (\<forall>n. 2 * (length s - length r) \<le> n \<longrightarrow> JSONArray n vals s = Some (v, r)))
   \<and> (\<forall>pairs s v r. JSONObject m pairs s = Some (v, r) \<longrightarrow>
      length r < length s \<and> (\<forall>n. 2 * (length s - length r) \<le> n \<longrightarrow> JSONObject n pairs s = Some (v, r)))"
proof (induction m)
  case 0
  show ?case by simp
next
  case (Suc m)
  then have IHs: "\<And>s v r. scan_once m s = Some (v, r) \<Longrightarrow>
            length r < length s \<and> (\<forall>n. 2 * (length s - length r) \<le> n \<longrightarrow> scan_once n s = Some (v, r))"
    and IHa: "\<And>vals s v r. JSONArray m vals s = Some (v, r) \<Longrightarrow>
            length r < length s \<and> (\<forall>n. 2 * (length s - length r) \<le> n \<longrightarrow> JSONArray n vals s = Some (v, r))"
    and IHo: "\<And>pairs s v r. JSONObject m pairs s = Some (v, r) \<Longrightarrow>
            length r < length s \<and> (\<forall>n. 2 * (length s - length r) \<le> n \<longrightarrow> JSONObject n pairs s = Some (v, r))"
    by blast+
  show ?case
    using scan_once_step [OF IHa IHo] JSONArray_step [OF IHs IHa] JSONObject_step [OF IHs IHo]
    by blast
qed

text \<open>
  The bound that \<open>json_loads\<close> gives the scanner is enough: whatever the scanner finds
  with any bound, it finds with that one.
\<close>

lemma json_loads_fuel:
  "scan_once m (skip_ws s) = Some (v, r) \<Longrightarrow>
   scan_once (2 * length s + 2) (skip_ws s) = Some (v, r)"
proof -
  assume a: "scan_once m (skip_ws s) = Some (v, r)"
  with scanner_fuel [of m] have "length r < length (skip_ws s)"
    and f: "\<And>n. 2 * (length (skip_ws s) - length r) \<le> n \<Longrightarrow> scan_once n (skip_ws s) = Some (v, r)"
    by blast+
  have "2 * (length (skip_ws s) - length r) \<le> 2 * length s + 2"
    using skip_ws_length [of s] by simp
  from f [OF this] show ?thesis .
qed

section \<open>Properties of the JSON extraction\<close>

lemma json_loads_Nil: "json_loads [] = None"
  by (simp add: json_loads_def skip_ws_def numeral_2_eq_2)

lemma safe_json_extract_strict_first:
  "json_loads t = Some v \<Longrightarrow> safe_json_extract t = v"
  by (auto simp: safe_json_extract_def json_loads_Nil)

lemma py_find_notin: "c \<notin> set s \<Longrightarrow> py_find s c = - 1"
  by (induction s) (auto simp: Let_def)

lemma py_find_ge: "- 1 \<le> py_find s c"
  by (induction s) (auto simp: Let_def)

lemma py_find_first: "c \<notin> set pre \<Longrightarrow> py_find (pre @ c # rest) c = int (length pre)"
proof (induction pre)
  case Nil
  show ?case by simp
next
  case (Cons x pre)
  then show ?case by (auto simp: Let_def)
qed

lemma py_rfind_notin: "c \<notin> set s \<Longrightarrow> py_rfind s c = - 1"
  by (simp add: py_rfind_def py_find_notin)

lemma py_rfind_last: "c \<notin> set post \<Longrightarrow> py_rfind (xs @ c # post) c = int (length xs)"
  using py_find_first [of c "rev post" "rev xs"]
  by (simp add: py_rfind_def Let_def)

lemma py_slice_middle:
  "py_slice (pre @ frag @ post) (int (length pre)) (int (length pre) + int (length frag)) = frag"
  by (simp add: py_slice_def nat_add_distrib)

lemma safe_json_extract_fragment:
  assumes "json_loads (pre @ CHR ''{'' # mid @ CHR ''}'' # post) = None"
    and "CHR ''{'' \<notin> set pre" and "CHR ''}'' \<notin> set post"
  shows "safe_json_extract (pre @ CHR ''{'' # mid @ CHR ''}'' # post) =
           (case json_loads (CHR ''{'' # mid @ [CHR ''}'']) of Some v \<Rightarrow> v | None \<Rightarrow> JNull)"
proof -
  let ?t = "pre @ CHR ''{'' # mid @ CHR ''}'' # post"
  have s: "py_find ?t (CHR ''{'') = int (length pre)"
    using assms(2) by (rule py_find_first)
  have e: "py_rfind ?t (CHR ''}'') = int (length pre) + 1 + int (length mid)"
    using py_rfind_last [OF assms(3), of "pre @ CHR ''{'' # mid"] by simp
  have sl: "py_slice ?t (int (length pre)) (2 + (int (length pre) + int (length mid))) = CHR ''{'' # mid @ [CHR ''}'']"
    using py_slice_middle [of pre "CHR ''{'' # mid @ [CHR ''}'']" post] by (simp add: add.commute add.left_commute)
  show ?thesis
    using assms(1) by (simp add: safe_json_extract_def s e sl Let_def)
qed

lemma safe_json_extract_no_fragment:
  assumes "json_loads t = None" and "CHR ''{'' \<notin> set t \<or> CHR ''}'' \<notin> set t"
  shows "safe_json_extract t = JNull"
  using assms by (auto simp: safe_json_extract_def Let_def py_find_notin py_rfind_notin)


text \<open>The example of the specification: the object is found between the braces.\<close>

lemma safe_json_extract_example:
  "json_loads ''Sure! Here is the JSON: {\"turn_quality_score\": 8} Thanks.'' = None
   \<and> safe_json_extract ''Sure! Here is the JSON: {\"turn_quality_score\": 8} Thanks.''
       = JObject [(py_str ''turn_quality_score'', JInt 8)]"
  by code_simp

text \<open>
  C4.  The parse is specified to give \<open>parsed = null\<close>, with the raw text kept, on any
  text without a brace character.  The text "8" has no brace, and the strict parse of the whole
  text succeeds on it: \<open>safe_json_extract\<close> returns the number 8, which is neither null
  nor an object.  In \<open>evaluate_turn\<close> the log line then calls \<^verbatim>\<open>get\<close> on the number, and
  the evaluation that is recorded has the message of that \<^verbatim>\<open>AttributeError\<close> as its raw
  text, not the text "8".
\<close>

theorem safe_json_extract_brace_free_number:
  "CHR ''{'' \<notin> set ''8'' \<and> CHR ''}'' \<notin> set ''8''
   \<and> safe_json_extract ''8'' = JInt 8
   \<and> snd (evaluate_turn (example_coach [main_system_prompt] (text_response ''8''))
             (ConversationState_init ''card'' ''Sarah Chen'') ''a'' ''b'')
       = Returned (Some \<lparr>turn_number = 1, customer_message = ''a'',
                          representative_response = ''b'',
                          raw_text = no_attribute ''int'' ''get'', parsed = JNull\<rparr>)"
  by code_simp

section \<open>Properties of the evaluator\<close>

lemma evaluate_turn_debounced:
  "last_evaluated_rep_response state = Some rr \<Longrightarrow> last_customer_message state = Some cp \<Longrightarrow>
   evaluate_turn self state cp rr = (state, Returned None)"
  by (simp add: evaluate_turn_def)

lemma evaluate_turn_cases:
  assumes "\<not> (last_evaluated_rep_response state = Some rr \<and> last_customer_message state = Some cp)"
  obtains (raised) e where
      "evaluate_turn self state cp rr =
         (state\<lparr>turn_index := turn_index state + 1, last_customer_message := Some cp,
                last_evaluated_rep_response := Some rr\<rparr>, Raised e)"
      "build_evaluation_prompt self (state\<lparr>turn_index := turn_index state + 1, last_customer_message := Some cp,
                last_evaluated_rep_response := Some rr\<rparr>) cp rr = Inl e"
  | (returned) ev p where
      "evaluate_turn self state cp rr =
         (state\<lparr>turn_index := turn_index state + 1, last_customer_message := Some cp,
                last_evaluated_rep_response := Some rr,
                evaluations := evaluations state @ [ev]\<rparr>, Returned (Some ev))"
      "ev = \<lparr>turn_number = turn_index state + 1, customer_message = cp,
                        representative_response = rr,
                        raw_text = fst (evaluate_turn_try self p),
                        parsed = snd (evaluate_turn_try self p)\<rparr>"
      "build_evaluation_prompt self (state\<lparr>turn_index := turn_index state + 1, last_customer_message := Some cp,
                last_evaluated_rep_response := Some rr\<rparr>) cp rr = Inr p"
proof (cases "build_evaluation_prompt self (state\<lparr>turn_index := turn_index state + 1, last_customer_message := Some cp,
                last_evaluated_rep_response := Some rr\<rparr>) cp rr")
  case (Inl e)
  with assms show ?thesis
    by (intro raised [of e]) (auto simp: evaluate_turn_def Let_def)
next
  case (Inr p)
  with assms show ?thesis
    by (intro returned [of _ p]) (auto simp: evaluate_turn_def Let_def split: prod.splits)
qed

lemma evaluate_turn_records_pair:
  "last_evaluated_rep_response (fst (evaluate_turn self state cp rr)) = Some rr
   \<and> last_customer_message (fst (evaluate_turn self state cp rr)) = Some cp"
proof (cases "last_evaluated_rep_response state = Some rr \<and> last_customer_message state = Some cp")
  case True
  then show ?thesis by (simp add: evaluate_turn_debounced)
next
  case False
  then show ?thesis by (cases rule: evaluate_turn_cases [of state rr cp self]) simp_all
qed

lemma second_call_debounced:
  "evaluate_turn self2 (fst (evaluate_turn self state cp rr)) cp rr =
     (fst (evaluate_turn self state cp rr), Returned None)"
  using evaluate_turn_records_pair [of self state cp rr]
  by (simp add: evaluate_turn_debounced)

text \<open>
  C3, as amended.  Two calls of \<open>evaluate_turn\<close> in succession on one state with the same
  pair.  The second call is debounced whatever the first did: it returns nothing and
  leaves the state as the first call left it, so it appends no record.  When the pair is
  not the one the state already records, the first call increments \<open>turn_index\<close> by one,
  which is then the increment across both calls, and when it returns, its result is an
  evaluation, which is the one record appended to \<open>evaluations\<close>.  On a state that
  already records the pair, the first call is debounced as well.
\<close>

theorem debounce_exactness:
  "evaluate_turn self2 (fst (evaluate_turn self state cp rr)) cp rr =
     (fst (evaluate_turn self state cp rr), Returned None)
   \<and> (\<not> (last_evaluated_rep_response state = Some rr \<and> last_customer_message state = Some cp) \<longrightarrow>
        turn_index (fst (evaluate_turn self state cp rr)) = turn_index state + 1)
   \<and> (\<not> (last_evaluated_rep_response state = Some rr \<and> last_customer_message state = Some cp)
        \<and> snd (evaluate_turn self state cp rr) = Returned r1 \<longrightarrow>
        r1 \<noteq> None
        \<and> evaluations (fst (evaluate_turn self state cp rr)) = evaluations state @ [the r1])"
proof -
  have second: "evaluate_turn self2 (fst (evaluate_turn self state cp rr)) cp rr =
     (fst (evaluate_turn self state cp rr), Returned None)"
    by (rule second_call_debounced)
  have first: "\<not> (last_evaluated_rep_response state = Some rr \<and> last_customer_message state = Some cp) \<Longrightarrow>
      turn_index (fst (evaluate_turn self state cp rr)) = turn_index state + 1
      \<and> (snd (evaluate_turn self state cp rr) = Returned r1 \<longrightarrow>
           r1 \<noteq> None
           \<and> evaluations (fst (evaluate_turn self state cp rr)) = evaluations state @ [the r1])"
    by (cases rule: evaluate_turn_cases [of state rr cp self]) auto
  from second first show ?thesis by blast
qed

theorem debounce_exactness_witness:
  "\<not> (last_evaluated_rep_response (ConversationState_init ''card'' ''Sarah Chen'') = Some ''b''
       \<and> last_customer_message (ConversationState_init ''card'' ''Sarah Chen'') = Some ''a'')
   \<and> snd (evaluate_turn (example_coach [main_system_prompt] TimedOut)
             (ConversationState_init ''card'' ''Sarah Chen'') ''a'' ''b'')
       = Returned (Some \<lparr>turn_number = 1, customer_message = ''a'', representative_response = ''b'',
                           raw_text = ''Timeout'', parsed = JNull\<rparr>)
   \<and> snd (evaluate_turn (example_coach [main_system_prompt] TimedOut)
             (fst (evaluate_turn (example_coach [main_system_prompt] TimedOut)
                     (ConversationState_init ''card'' ''Sarah Chen'') ''a'' ''b'')) ''a'' ''b'')
       = Returned None
   \<and> turn_index (fst (evaluate_turn (example_coach [main_system_prompt] TimedOut)
                         (fst (evaluate_turn (example_coach [main_system_prompt] TimedOut)
                                 (ConversationState_init ''card'' ''Sarah Chen'') ''a'' ''b'')) ''a'' ''b'')) = 1
   \<and> evaluations (fst (evaluate_turn (example_coach [main_system_prompt] TimedOut)
                         (ConversationState_init ''card'' ''Sarah Chen'') ''a'' ''b''))
       = [\<lparr>turn_number = 1, customer_message = ''a'', representative_response = ''b'',
           raw_text = ''Timeout'', parsed = JNull\<rparr>]"
proof -
  have h: "\<not> (last_evaluated_rep_response (ConversationState_init ''card'' ''Sarah Chen'') = Some ''b''
       \<and> last_customer_message (ConversationState_init ''card'' ''Sarah Chen'') = Some ''a'')"
    by (simp add: ConversationState_init_def)
  have r: "snd (evaluate_turn (example_coach [main_system_prompt] TimedOut)
             (ConversationState_init ''card'' ''Sarah Chen'') ''a'' ''b'')
       = Returned (Some \<lparr>turn_number = 1, customer_message = ''a'', representative_response = ''b'',
                           raw_text = ''Timeout'', parsed = JNull\<rparr>)"
    by code_simp
  from debounce_exactness [of "example_coach [main_system_prompt] TimedOut"
      "example_coach [main_system_prompt] TimedOut" "ConversationState_init ''card'' ''Sarah Chen''"
      "''a''" "''b''" "Some \<lparr>turn_number = 1, customer_message = ''a'', representative_response = ''b'',
                           raw_text = ''Timeout'', parsed = JNull\<rparr>"] h r
  show ?thesis by (simp add: ConversationState_init_def)
qed

text \<open>
  On the state that one evaluation of the pair has left, two further calls with the same
  pair both return nothing.
\<close>

theorem debounce_recorded_pair_counterexample:
  "evaluate_turn (example_coach [main_system_prompt] TimedOut)
     \<lparr>scenario = ''card'', persona_name = ''Sarah Chen'', last_customer_message = Some ''a'',
      last_evaluated_rep_response = Some ''b'', turn_index = 1,
      evaluations =
        [\<lparr>turn_number = 1, customer_message = ''a'', representative_response = ''b'',
          raw_text = ''Timeout'', parsed = JNull\<rparr>]\<rparr> ''a'' ''b''
   = (\<lparr>scenario = ''card'', persona_name = ''Sarah Chen'', last_customer_message = Some ''a'',
       last_evaluated_rep_response = Some ''b'', turn_index = 1,
       evaluations =
         [\<lparr>turn_number = 1, customer_message = ''a'', representative_response = ''b'',
           raw_text = ''Timeout'', parsed = JNull\<rparr>]\<rparr>,
      Returned None)
   \<and> fst (evaluate_turn (example_coach [main_system_prompt] TimedOut)
            (ConversationState_init ''card'' ''Sarah Chen'') ''a'' ''b'')
     = \<lparr>scenario = ''card'', persona_name = ''Sarah Chen'', last_customer_message = Some ''a'',
        last_evaluated_rep_response = Some ''b'', turn_index = 1,
        evaluations =
          [\<lparr>turn_number = 1, customer_message = ''a'', representative_response = ''b'',
            raw_text = ''Timeout'', parsed = JNull\<rparr>]\<rparr>"
  by code_simp

lemma evaluate_turn_delta:
  "evaluate_turn self state cp rr = (state', out) \<Longrightarrow>
   turn_index state' - int (length (evaluations state')) =
     turn_index state - int (length (evaluations state)) + (if is_Returned out then 0 else 1)"
proof (cases "last_evaluated_rep_response state = Some rr \<and> last_customer_message state = Some cp")
  case True
  assume "evaluate_turn self state cp rr = (state', out)"
  with True show ?thesis by (auto simp: evaluate_turn_debounced)
next
  case False
  assume "evaluate_turn self state cp rr = (state', out)"
  with False show ?thesis
    by (cases rule: evaluate_turn_cases [of state rr cp self]) auto
qed

lemma evaluate_turns_delta:
  "evaluate_turns state calls = (state', outs) \<Longrightarrow>
   turn_index state' - int (length (evaluations state')) =
     turn_index state - int (length (evaluations state))
     + int (length (filter (\<lambda>out. \<not> is_Returned out) outs))"
proof (induction calls arbitrary: state state' outs)
  case Nil
  then show ?case by simp
next
  case (Cons call calls)
  obtain self cp rr where call: "call = (self, cp, rr)" by (cases call) auto
  obtain s1 out where first: "evaluate_turn self state cp rr = (s1, out)" by (cases "evaluate_turn self state cp rr")
  obtain s2 rest where rest: "evaluate_turns s1 calls = (s2, rest)" by (cases "evaluate_turns s1 calls")
  from Cons.prems call first rest have eq: "state' = s2" "outs = out # rest" by simp_all
  from Cons.IH [OF rest] evaluate_turn_delta [OF first] show ?case
    by (simp add: eq)
qed

lemma filter_not_Returned: "list_all is_Returned outs \<Longrightarrow> filter (\<lambda>out. \<not> is_Returned out) outs = []"
  by (induction outs) auto

text \<open>
  C10.  From a freshly constructed state, after any sequence of calls of \<open>evaluate_turn\<close>
  that all return normally, \<open>turn_index\<close> is the length of \<open>evaluations\<close>.  A call that
  is not debounced and returns appends exactly one evaluation, its result, whose
  \<open>turn_number\<close> is the incremented \<open>turn_index\<close>; a debounced call returns nothing and
  leaves the state unchanged.
\<close>

theorem evaluator_bookkeeping:
  "(list_all is_Returned (snd (evaluate_turns (ConversationState_init sc pn) calls)) \<longrightarrow>
      turn_index (fst (evaluate_turns (ConversationState_init sc pn) calls)) =
        int (length (evaluations (fst (evaluate_turns (ConversationState_init sc pn) calls)))))
   \<and> (\<not> (last_evaluated_rep_response state = Some rr \<and> last_customer_message state = Some cp)
        \<and> evaluate_turn self state cp rr = (state', Returned r) \<longrightarrow>
        r \<noteq> None
        \<and> evaluations state' = evaluations state @ [the r]
        \<and> turn_index state' = turn_index state + 1
        \<and> turn_number (the r) = turn_index state')
   \<and> (last_evaluated_rep_response state = Some rr \<and> last_customer_message state = Some cp \<longrightarrow>
        evaluate_turn self state cp rr = (state, Returned None))"
proof -
  have a: "list_all is_Returned (snd (evaluate_turns (ConversationState_init sc pn) calls)) \<longrightarrow>
      turn_index (fst (evaluate_turns (ConversationState_init sc pn) calls)) =
        int (length (evaluations (fst (evaluate_turns (ConversationState_init sc pn) calls))))"
  proof
    assume all: "list_all is_Returned (snd (evaluate_turns (ConversationState_init sc pn) calls))"
    obtain s outs where run: "evaluate_turns (ConversationState_init sc pn) calls = (s, outs)"
      by (cases "evaluate_turns (ConversationState_init sc pn) calls")
    from evaluate_turns_delta [OF run] all run
    show "turn_index (fst (evaluate_turns (ConversationState_init sc pn) calls)) =
        int (length (evaluations (fst (evaluate_turns (ConversationState_init sc pn) calls))))"
      by (simp add: filter_not_Returned ConversationState_init_def)
  qed
  have b: "\<not> (last_evaluated_rep_response state = Some rr \<and> last_customer_message state = Some cp)
        \<and> evaluate_turn self state cp rr = (state', Returned r) \<longrightarrow>
        r \<noteq> None
        \<and> evaluations state' = evaluations state @ [the r]
        \<and> turn_index state' = turn_index state + 1
        \<and> turn_number (the r) = turn_index state'"
  proof
    assume h: "\<not> (last_evaluated_rep_response state = Some rr \<and> last_customer_message state = Some cp)
        \<and> evaluate_turn self state cp rr = (state', Returned r)"
    then have nd: "\<not> (last_evaluated_rep_response state = Some rr \<and> last_customer_message state = Some cp)"
      and ev: "evaluate_turn self state cp rr = (state', Returned r)" by simp_all
    from nd ev show "r \<noteq> None
        \<and> evaluations state' = evaluations state @ [the r]
        \<and> turn_index state' = turn_index state + 1
        \<and> turn_number (the r) = turn_index state'"
      by (cases rule: evaluate_turn_cases [of state rr cp self]) auto
  qed
  have c: "last_evaluated_rep_response state = Some rr \<and> last_customer_message state = Some cp \<longrightarrow>
        evaluate_turn self state cp rr = (state, Returned None)"
    by (simp add: evaluate_turn_debounced)
  from a b c show ?thesis by blast
qed

theorem evaluator_bookkeeping_witness:
  "evaluate_turns (ConversationState_init ''card'' ''Sarah Chen'')
     [(example_coach [main_system_prompt] TimedOut, ''a'', ''b''),
      (example_coach [main_system_prompt] TimedOut, ''a'', ''b''),
      (example_coach [main_system_prompt] (Failed ''boom''), ''c'', ''d'')]
   = (\<lparr>scenario = ''card'', persona_name = ''Sarah Chen'', last_customer_message = Some ''c'',
       last_evaluated_rep_response = Some ''d'', turn_index = 2,
       evaluations =
         [\<lparr>turn_number = 1, customer_message = ''a'', representative_response = ''b'',
           raw_text = ''Timeout'', parsed = JNull\<rparr>,
          \<lparr>turn_number = 2, customer_message = ''c'', representative_response = ''d'',
           raw_text = ''boom'', parsed = JNull\<rparr>]\<rparr>,
      [Returned (Some \<lparr>turn_number = 1, customer_message = ''a'',
                        representative_response = ''b'', raw_text = ''Timeout'',
                        parsed = JNull\<rparr>),
       Returned None,
       Returned (Some \<lparr>turn_number = 2, customer_message = ''c'',
                        representative_response = ''d'', raw_text = ''boom'',
                        parsed = JNull\<rparr>)])
   \<and> turn_index
         (fst (evaluate_turns (ConversationState_init ''card'' ''Sarah Chen'')
                 [(example_coach [main_system_prompt] TimedOut, ''a'', ''b''),
                  (example_coach [main_system_prompt] TimedOut, ''a'', ''b''),
                  (example_coach [main_system_prompt] (Failed ''boom''), ''c'', ''d'')]))
       = int (length (evaluations
           (fst (evaluate_turns (ConversationState_init ''card'' ''Sarah Chen'')
                   [(example_coach [main_system_prompt] TimedOut, ''a'', ''b''),
                    (example_coach [main_system_prompt] TimedOut, ''a'', ''b''),
                    (example_coach [main_system_prompt] (Failed ''boom''), ''c'', ''d'')]))))"
proof -
  have run: "evaluate_turns (ConversationState_init ''card'' ''Sarah Chen'')
     [(example_coach [main_system_prompt] TimedOut, ''a'', ''b''),
      (example_coach [main_system_prompt] TimedOut, ''a'', ''b''),
      (example_coach [main_system_prompt] (Failed ''boom''), ''c'', ''d'')]
   = (\<lparr>scenario = ''card'', persona_name = ''Sarah Chen'', last_customer_message = Some ''c'',
       last_evaluated_rep_response = Some ''d'', turn_index = 2,
       evaluations =
         [\<lparr>turn_number = 1, customer_message = ''a'', representative_response = ''b'',
           raw_text = ''Timeout'', parsed = JNull\<rparr>,
          \<lparr>turn_number = 2, customer_message = ''c'', representative_response = ''d'',
           raw_text = ''boom'', parsed = JNull\<rparr>]\<rparr>,
      [Returned (Some \<lparr>turn_number = 1, customer_message = ''a'',
                        representative_response = ''b'', raw_text = ''Timeout'',
                        parsed = JNull\<rparr>),
       Returned None,
       Returned (Some \<lparr>turn_number = 2, customer_message = ''c'',
                        representative_response = ''d'', raw_text = ''boom'',
                        parsed = JNull\<rparr>)])"
    by code_simp
  show ?thesis
    using evaluator_bookkeeping
         [of "''card''" "''Sarah Chen''"
             "[(example_coach [main_system_prompt] TimedOut, ''a'', ''b''),
               (example_coach [main_system_prompt] TimedOut, ''a'', ''b''),
               (example_coach [main_system_prompt] (Failed ''boom''), ''c'', ''d'')]"]
    unfolding run by simp
qed

lemma starts_with_append: "starts_with s (a @ b) \<Longrightarrow> starts_with s a"
proof -
  assume "starts_with s (a @ b)"
  then have "take (length a + length b) s = a @ b" by (simp add: starts_with_def)
  then have "take (length a) (take (length a + length b) s) = a" by simp
  then show ?thesis by (simp add: starts_with_def min_def)
qed

lemma py_contains_append: "py_contains (a @ b) s \<Longrightarrow> py_contains a s"
  by (induction s) (auto dest: starts_with_append)

lemma py_lower_append: "py_lower (a @ b) = py_lower a @ py_lower b"
  by (simp add: py_lower_def)

lemma main_system_prompt_missing:
  assumes "find_prompts repo (Some ''coach_agent'') None (Some ''Main System'') = []"
  shows "find_prompts repo (Some ''coach_agent'') None (Some ''Main System Prompt'') = []"
proof -
  have "py_contains (py_lower ''Main System Prompt'') n \<Longrightarrow> py_contains (py_lower ''Main System'') n" for n
    using py_contains_append [of "py_lower ''Main System''" "py_lower '' Prompt''" n]
    by (simp add: py_lower_append [symmetric])
  with assms show ?thesis
    by (auto simp: find_prompts_def Let_def filter_empty_conv)
qed

lemma fallback_always_raises:
  assumes "find_prompts repo (Some ''coach_agent'') None (Some ''Main System'') = []"
  shows "coach_main_system_prompt repo = Inl (KeyError ''No coach main system prompt found'')"
  using main_system_prompt_missing [OF assms] by (simp add: coach_main_system_prompt_def)

lemma build_evaluation_prompt_raises:
  assumes "find_prompts (prompts_repo self) (Some ''coach_agent'') None (Some ''Main System'') = []"
  shows "build_evaluation_prompt self state cp rr = Inl (KeyError ''No coach main system prompt found'')"
  using fallback_always_raises [OF assms] assms
  by (simp add: build_evaluation_prompt_def coach_system_part_def py_then_def Let_def)

lemma evaluate_turn_raises_iff:
  assumes "\<not> (last_evaluated_rep_response state = Some rr \<and> last_customer_message state = Some cp)"
  shows "snd (evaluate_turn self state cp rr) = Raised e
         \<longleftrightarrow> build_evaluation_prompt self (state\<lparr>turn_index := turn_index state + 1,
                           last_customer_message := Some cp,
                           last_evaluated_rep_response := Some rr\<rparr>) cp rr = Inl e"
  using assms by (auto simp: evaluate_turn_def Let_def split: sum.splits prod.splits)

lemma evaluate_turn_absorbs_failures:
  assumes nd: "\<not> (last_evaluated_rep_response state = Some rr \<and> last_customer_message state = Some cp)"
    and p: "build_evaluation_prompt self (state\<lparr>turn_index := turn_index state + 1,
                           last_customer_message := Some cp,
                           last_evaluated_rep_response := Some rr\<rparr>) cp rr = Inr p"
  shows "\<exists>ev. snd (evaluate_turn self state cp rr) = Returned (Some ev)
           \<and> (\<forall>g. model self = Some g \<and> g p = TimedOut \<longrightarrow> raw_text ev = ''Timeout'' \<and> parsed ev = JNull)
           \<and> (\<forall>g e. model self = Some g \<and> g p = Failed e \<longrightarrow> raw_text ev = e \<and> parsed ev = JNull)
           \<and> (model self = None \<longrightarrow> raw_text ev = no_attribute ''NoneType'' ''generate_content'' \<and> parsed ev = JNull)"
proof -
  from nd show ?thesis
  proof (cases rule: evaluate_turn_cases [of state rr cp self])
    case (raised e)
    with p show ?thesis by simp
  next
    case (returned ev q)
    with p have "q = p" by simp
    with returned p show ?thesis
      by (auto simp: evaluate_turn_try_def)
  qed
qed

text \<open>
  The prompt of the example repository can be built.  A coach prompt whose
  \<^verbatim>\<open>role_expertise\<close> is a number cannot: the \<^verbatim>\<open>join\<close> raises before the \<^verbatim>\<open>try\<close> statement
  as well.
\<close>

lemma build_evaluation_prompt_example:
  "build_evaluation_prompt (example_coach [main_system_prompt] TimedOut)
     (ConversationState_init ''card'' ''Sarah Chen'') ''a'' ''b''
   = Inr [JString (py_str ''You are a coach.''), JArray [], JArray [], JArray [], JArray [],
          JString (py_str ''Sarah Chen''), JString (py_str ''card''), JInt 0,
          JString (py_str ''a''), JString (py_str ''b'')]"
  by code_simp

lemma evaluate_turn_raises_on_unjoinable_content:
  "snd (evaluate_turn
     (example_coach
        [main_system_prompt\<lparr>prompt_content := [(py_str ''role_expertise'', JInt 3)]\<rparr>] TimedOut)
     (ConversationState_init ''card'' ''Sarah Chen'') ''a'' ''b'')
   = Raised (TypeError ''can only join an iterable'')"
  by code_simp

text \<open>
  C5.  \<open>evaluate_turn\<close> is specified never to raise to its caller.  On a repository
  with no coach prompt named "Main System", the call on a new state raises \<^verbatim>\<open>KeyError\<close>:
  the prompt is built before the \<^verbatim>\<open>try\<close> statement, and the fall-back of
  \<open>build_evaluation_prompt\<close> can only raise (\<open>fallback_always_raises\<close>).  The state has
  by then recorded the pair and counted the turn, with no evaluation appended, so the same
  pair submitted again is debounced.  When the prompt can be built, the call returns an
  evaluation whatever the model does (\<open>evaluate_turn_absorbs_failures\<close>); the call raises
  exactly when the prompt cannot be built (\<open>evaluate_turn_raises_iff\<close>).
\<close>

theorem evaluate_turn_raises_without_coach_prompt:
  "evaluate_turn (example_coach [] TimedOut) (ConversationState_init ''card'' ''Sarah Chen'') ''a'' ''b''
   = (\<lparr>scenario = ''card'', persona_name = ''Sarah Chen'', last_customer_message = Some ''a'',
       last_evaluated_rep_response = Some ''b'', turn_index = 1, evaluations = []\<rparr>,
      Raised (KeyError ''No coach main system prompt found''))
   \<and> evaluate_turn (example_coach [] TimedOut)
       \<lparr>scenario = ''card'', persona_name = ''Sarah Chen'', last_customer_message = Some ''a'',
        last_evaluated_rep_response = Some ''b'', turn_index = 1, evaluations = []\<rparr> ''a'' ''b''
     = (\<lparr>scenario = ''card'', persona_name = ''Sarah Chen'', last_customer_message = Some ''a'',
         last_evaluated_rep_response = Some ''b'', turn_index = 1, evaluations = []\<rparr>,
        Returned None)"
  by code_simp

section \<open>Properties of the session assessment\<close>

lemma starts_with_self: "starts_with (sub @ post) sub"
  by (simp add: starts_with_def)

lemma py_contains_prefix: "py_contains sub (sub @ post)"
  by (cases "sub @ post") (auto simp: starts_with_self simp del: append_eq_Cons_conv dest: sym)

lemma py_contains_middle: "py_contains sub (pre @ sub @ post)"
  by (induction pre) (simp_all add: py_contains_prefix)

lemma fallbacks_distinct:
  "distinct [no_transcript_fallback, no_configuration_fallback, timeout_fallback,
             failure_fallback e, no_response_fallback]"
  by (simp add: no_transcript_fallback_def no_configuration_fallback_def timeout_fallback_def
      failure_fallback_def no_response_fallback_def assessment_heading_def)

lemma fallbacks_name_cause:
  "py_contains ''No transcript available'' no_transcript_fallback"
  "py_contains ''configuration not found'' no_configuration_fallback"
  "py_contains ''timed out'' timeout_fallback"
  "py_contains (''generation failed: '' @ e) (failure_fallback e)"
proof -
  show "py_contains ''No transcript available'' no_transcript_fallback"
    using py_contains_middle [of "''No transcript available''" assessment_heading "'' for assessment.''"]
    by (simp add: no_transcript_fallback_def)
  show "py_contains ''configuration not found'' no_configuration_fallback"
    using py_contains_middle [of "''configuration not found''" "assessment_heading @ ''Assessment ''" "''.''"]
    by (simp add: no_configuration_fallback_def)
  show "py_contains ''timed out'' timeout_fallback"
    using py_contains_middle [of "''timed out''" "assessment_heading @ ''Assessment generation ''" "''.''"]
    by (simp add: timeout_fallback_def)
  show "py_contains (''generation failed: '' @ e) (failure_fallback e)"
    using py_contains_middle [of "''generation failed: '' @ e" "assessment_heading @ ''Assessment ''" "[]"]
    by (simp add: failure_fallback_def)
qed

text \<open>
  When the request can be built, \<open>generate_session_assessment\<close> returns, and on each
  failure of the model a fixed answer: the timeout, any other failure with its
  description \<open>e\<close> (a coach that was never started is such a failure), and an empty
  response.  Without a transcript, and without an assessment prompt in the repository, it
  returns a fixed answer before the request is built.  The answers are pairwise distinct,
  whatever the description, and each contains the words that name its cause.
\<close>

lemma session_assessment_returns_when_built:
  assumes "transcript_arg \<noteq> []"
    and "find_prompts (prompts_repo self) (Some ''coach_agent'') None (Some ''Session Assessment'') \<noteq> []"
    and "build_assessment_prompt
           (hd (find_prompts (prompts_repo self) (Some ''coach_agent'') None (Some ''Session Assessment'')))
           state transcript_arg = Inr req"
  shows "\<exists>markdown. generate_session_assessment self state transcript_arg = Returned markdown
           \<and> (\<forall>g. model self = Some g \<and> g req = TimedOut \<longrightarrow> markdown = timeout_fallback)
           \<and> (\<forall>g e. model self = Some g \<and> g req = Failed e \<longrightarrow> markdown = failure_fallback e)
           \<and> (\<forall>g. model self = Some g \<and> g req = Responded None \<longrightarrow> markdown = no_response_fallback)
           \<and> (\<forall>g r. model self = Some g \<and> g req = Responded (Some r) \<longrightarrow>
                 markdown = (if response_text r \<noteq> [] then response_text r else no_response_fallback))
           \<and> (model self = None \<longrightarrow>
                 markdown = failure_fallback (no_attribute ''NoneType'' ''generate_content''))"
  using assms
  by (auto simp: generate_session_assessment_def generate_session_assessment_try_def Let_def)

lemma session_assessment_early_returns:
  "generate_session_assessment self state [] = Returned no_transcript_fallback"
  "transcript_arg \<noteq> [] \<Longrightarrow>
   find_prompts (prompts_repo self) (Some ''coach_agent'') None (Some ''Session Assessment'') = [] \<Longrightarrow>
   generate_session_assessment self state transcript_arg = Returned no_configuration_fallback"
  by (simp_all add: generate_session_assessment_def Let_def)

text \<open>
  The call raises exactly when there is a transcript, an assessment prompt is found and
  the request cannot be built from them.
\<close>

lemma session_assessment_raises_iff:
  "generate_session_assessment self state transcript_arg = Raised e \<longleftrightarrow>
     transcript_arg \<noteq> []
     \<and> find_prompts (prompts_repo self) (Some ''coach_agent'') None (Some ''Session Assessment'') \<noteq> []
     \<and> build_assessment_prompt
         (hd (find_prompts (prompts_repo self) (Some ''coach_agent'') None (Some ''Session Assessment'')))
         state transcript_arg = Inl e"
  by (simp add: generate_session_assessment_def Let_def split: sum.splits)

text \<open>
  The request is built from every transcript of the logger when the achievements of the
  prompt are a list of strings, or are missing.
\<close>

lemma str_items_strings: "str_items i (map JString xs) = Inr (map JString xs)"
  by (induction xs arbitrary: i) (simp_all add: py_then_def)

lemma dict_get_asdict:
  "dict_get (asdict t) ''role'' dflt = JString (py_str (role t))"
  "dict_get (asdict t) ''ts'' dflt = JString (py_str (ts t))"
  "dict_get (asdict t) ''content'' dflt = JString (py_str (content t))"
  by (simp_all add: dict_get_def asdict_def py_str_def)

lemma conversation_lines_asdict:
  "conversation_lines (map asdict entries) =
     Inr (concat (map (\<lambda>t. [JString (py_str (ts t)), JString (py_str (role t)),
                             JString (py_str (content t))]) entries))"
  by (induction entries) (simp_all add: dict_get_asdict py_then_def)

lemma build_assessment_prompt_strings:
  assumes "dict_get (prompt_content found) ''achievements'' (JArray []) = JArray (map JString xs)"
  shows "\<exists>req. build_assessment_prompt found state (map asdict entries) = Inr req"
  using assms
  by (simp add: build_assessment_prompt_def Let_def conversation_lines_asdict py_then_def
      py_join_value_def py_iter_def str_items_strings)

lemma session_assessment_fallback_examples:
  "generate_session_assessment (example_coach [] TimedOut)
     (ConversationState_init ''card'' ''Sarah Chen'') [] = Returned no_transcript_fallback
   \<and> generate_session_assessment (example_coach [] TimedOut)
       (ConversationState_init ''card'' ''Sarah Chen'') [example_entry]
     = Returned no_configuration_fallback
   \<and> generate_session_assessment (example_coach [session_assessment_prompt] (Failed ''boom''))
       (ConversationState_init ''card'' ''Sarah Chen'') [example_entry]
     = Returned (failure_fallback ''boom'')
   \<and> generate_session_assessment (example_coach [session_assessment_prompt] (text_response ''# Good''))
       (ConversationState_init ''card'' ''Sarah Chen'') [example_entry]
     = Returned ''# Good''"
  by code_simp

text \<open>
  C9.  \<open>generate_session_assessment\<close> is specified to return a fallback that names the
  cause on a failure, and never to raise.  The request is built before the \<^verbatim>\<open>try\<close>
  statement is entered, from the content of the assessment prompt, whose values are of
  any type.  On a repository whose assessment prompt lists its achievements as objects,
  the \<^verbatim>\<open>join\<close> of the achievements raises \<^verbatim>\<open>TypeError\<close> and the call raises it to its
  caller, where the same call on a prompt that lists them as strings returns the fallback
  of the timeout.
\<close>

theorem session_assessment_raises_on_achievement_records:
  "generate_session_assessment (example_coach [achievement_records_prompt] TimedOut)
     (ConversationState_init ''card'' ''Sarah Chen'') [example_entry]
   = Raised (TypeError ''sequence item 0: expected str instance, dict found'')
   \<and> generate_session_assessment (example_coach [session_assessment_prompt] TimedOut)
       (ConversationState_init ''card'' ''Sarah Chen'') [example_entry]
     = Returned timeout_fallback"
  by code_simp

section \<open>Properties of the handlers\<close>

lemma evaluate_turn_shape:
  assumes "evaluate_turn self state cp rr = (st, res)"
  shows "(res = Returned None \<and> st = state)
       \<or> (\<exists>e. res = Raised e \<and> evaluations st = evaluations state)
       \<or> (\<exists>ev. res = Returned (Some ev) \<and> evaluations st = evaluations state @ [ev]
              \<and> evaluation_record ev = (turn_index st, cp, rr, parsed ev))"
proof (cases "last_evaluated_rep_response state = Some rr \<and> last_customer_message state = Some cp")
  case True
  with assms show ?thesis by (auto simp: evaluate_turn_debounced)
next
  case False
  then show ?thesis using assms
    by (cases rule: evaluate_turn_cases [of state rr cp self]) (auto simp: evaluation_record_def)
qed

lemma append_coach_turn_logs:
  "transcript (append_coach_turn now L ti cp rr ev) = transcript L"
  "interim_transcript (append_coach_turn now L ti cp rr ev) = interim_transcript L"
  "map turn_record (coach_turns (append_coach_turn now L ti cp rr ev)) =
     map turn_record (coach_turns L) @ [(ti, cp, rr, ev)]"
  by (simp_all add: append_coach_turn_def flush_per_turn_def turn_record_def Let_def)

lemma append_transcript_coach_turns:
  "coach_turns (append_transcript now L r c b) = coach_turns L"
  by (simp add: append_transcript_def flush_transcript_def flush_interim_transcript_def Let_def)

lemma evaluate_completed_turn_effect:
  "transcript (session_logger (evaluate_completed_turn genai s pair now)) =
     transcript (session_logger s)
   \<and> (\<exists>new. evaluations (conv_state (evaluate_completed_turn genai s pair now)) =
               evaluations (conv_state s) @ new
         \<and> map turn_record (coach_turns (session_logger (evaluate_completed_turn genai s pair now))) =
             map turn_record (coach_turns (session_logger s)) @
             map evaluation_record (filter (\<lambda>ev. py_truthy (parsed ev)) new))"
proof (cases "ensure_started genai (coach s)")
  case (Inl e)
  then show ?thesis by (simp add: evaluate_completed_turn_def Let_def)
next
  case (Inr started)
  obtain st res where ev: "evaluate_turn started (conv_state s) (fst pair) (snd pair) = (st, res)"
    by (cases "evaluate_turn started (conv_state s) (fst pair) (snd pair)")
  from evaluate_turn_shape [OF ev] Inr ev show ?thesis
    by (auto simp: evaluate_completed_turn_def Let_def append_coach_turn_logs)
qed

lemma handle_message_effect:
  "transcript (session_logger (handle_message genai s m)) =
     transcript (session_logger s) @ [message_entry m]
   \<and> (\<exists>new. evaluations (conv_state (handle_message genai s m)) = evaluations (conv_state s) @ new
         \<and> map turn_record (coach_turns (session_logger (handle_message genai s m))) =
             map turn_record (coach_turns (session_logger s)) @
             map evaluation_record (filter (\<lambda>ev. py_truthy (parsed ev)) new))"
proof -
  obtain r c t1 t2 where m: "m = ((r, c), t1, t2)" by (cases m) auto
  obtain agg tp where add: "add_message (conversation_aggregator s) r c = (agg, tp)"
    by (cases "add_message (conversation_aggregator s) r c")
  show ?thesis
  proof (cases tp)
    case None
    with m add show ?thesis
      by (simp add: handle_message_def message_entry_def Let_def append_transcript_logs
          append_transcript_coach_turns)
  next
    case (Some pair)
    let ?s1 = "s\<lparr>session_logger := append_transcript t1 (session_logger s) r c False,
                  conversation_aggregator := agg\<rparr>"
    have h: "handle_message genai s ((r, c), t1, t2) = evaluate_completed_turn genai ?s1 pair t2"
      using add Some by (simp add: handle_message_def Let_def)
    have me: "message_entry ((r, c), t1, t2) = final_entry (t1, r, c, False)"
      by (simp add: message_entry_def)
    from evaluate_completed_turn_effect [of genai ?s1 pair t2] show ?thesis
      unfolding m h me
      by (simp add: append_transcript_logs append_transcript_coach_turns)
  qed
qed

lemma write_session_assessment_effect:
  "transcript (session_logger (write_session_assessment genai s)) = transcript (session_logger s)"
  "coach_turns (session_logger (write_session_assessment genai s)) = coach_turns (session_logger s)"
  "conv_state (write_session_assessment genai s) = conv_state s"
  by (cases "ensure_started genai (coach s)";
      simp add: write_session_assessment_def Let_def write_session_eval_def
        split: outcome.splits)+

text \<open>
  At the end of a session of one message, the disconnect handler writes the answer of the
  coach; when the coach raises, it writes no assessment.
\<close>

lemma raised_assessment_not_written:
  "session_eval_file (session_logger (on_client_disconnected (constant_model TimedOut)
       (on_transcript_update (constant_model TimedOut)
          (example_session [main_system_prompt, session_assessment_prompt] TimedOut)
          [((''assistant'', ''Hi''), (1, ''t1''), (2, ''t2''))]) (3, ''t3'')))
   = Some timeout_fallback
   \<and> session_eval_file (session_logger (on_client_disconnected (constant_model TimedOut)
       (on_transcript_update (constant_model TimedOut)
          (example_session [main_system_prompt, achievement_records_prompt] TimedOut)
          [((''assistant'', ''Hi''), (1, ''t1''), (2, ''t2''))]) (3, ''t3'')))
   = None"
  by code_simp

lemma on_client_disconnected_effect:
  "transcript (session_logger (on_client_disconnected genai s now)) = transcript (session_logger s)
   \<and> (\<exists>new. evaluations (conv_state (on_client_disconnected genai s now)) =
               evaluations (conv_state s) @ new
         \<and> map turn_record (coach_turns (session_logger (on_client_disconnected genai s now))) =
             map turn_record (coach_turns (session_logger s)) @
             map evaluation_record (filter (\<lambda>ev. py_truthy (parsed ev)) new))"
proof -
  obtain agg ft where fl: "flush_pending_turn (conversation_aggregator s) = (agg, ft)"
    by (cases "flush_pending_turn (conversation_aggregator s)")
  show ?thesis
  proof (cases ft)
    case None
    with fl show ?thesis
      by (simp add: on_client_disconnected_def Let_def write_session_assessment_effect
          snapshot_transcript_def flush_transcript_def)
  next
    case (Some pair)
    with fl evaluate_completed_turn_effect [of genai "s\<lparr>conversation_aggregator := agg\<rparr>" pair now]
    show ?thesis
      by (simp add: on_client_disconnected_def Let_def write_session_assessment_effect
          snapshot_transcript_def flush_transcript_def)
  qed
qed

lemma on_transcript_update_effect:
  "transcript (session_logger (on_transcript_update genai s ms)) =
     transcript (session_logger s) @ map message_entry ms
   \<and> (\<exists>new. evaluations (conv_state (on_transcript_update genai s ms)) = evaluations (conv_state s) @ new
         \<and> map turn_record (coach_turns (session_logger (on_transcript_update genai s ms))) =
             map turn_record (coach_turns (session_logger s)) @
             map evaluation_record (filter (\<lambda>ev. py_truthy (parsed ev)) new))"
proof (induction ms arbitrary: s)
  case Nil
  show ?case by (simp add: on_transcript_update_def)
next
  case (Cons m ms)
  let ?s1 = "handle_message genai s m"
  from handle_message_effect [of genai s m] obtain new1 where
    t1: "transcript (session_logger ?s1) = transcript (session_logger s) @ [message_entry m]"
    and e1: "evaluations (conv_state ?s1) = evaluations (conv_state s) @ new1"
    and c1: "map turn_record (coach_turns (session_logger ?s1)) =
             map turn_record (coach_turns (session_logger s)) @
             map evaluation_record (filter (\<lambda>ev. py_truthy (parsed ev)) new1)" by blast
  from Cons.IH [of ?s1] obtain new2 where
    t2: "transcript (session_logger (on_transcript_update genai ?s1 ms)) =
           transcript (session_logger ?s1) @ map message_entry ms"
    and e2: "evaluations (conv_state (on_transcript_update genai ?s1 ms)) = evaluations (conv_state ?s1) @ new2"
    and c2: "map turn_record (coach_turns (session_logger (on_transcript_update genai ?s1 ms))) =
             map turn_record (coach_turns (session_logger ?s1)) @
             map evaluation_record (filter (\<lambda>ev. py_truthy (parsed ev)) new2)" by blast
  have step: "on_transcript_update genai s (m # ms) = on_transcript_update genai ?s1 ms"
    by (simp add: on_transcript_update_def)
  have "evaluations (conv_state (on_transcript_update genai s (m # ms))) = evaluations (conv_state s) @ (new1 @ new2)
         \<and> map turn_record (coach_turns (session_logger (on_transcript_update genai s (m # ms)))) =
             map turn_record (coach_turns (session_logger s)) @
             map evaluation_record (filter (\<lambda>ev. py_truthy (parsed ev)) (new1 @ new2))"
    by (simp add: step e1 e2 c1 c2)
  then have "\<exists>new. evaluations (conv_state (on_transcript_update genai s (m # ms))) = evaluations (conv_state s) @ new
         \<and> map turn_record (coach_turns (session_logger (on_transcript_update genai s (m # ms)))) =
             map turn_record (coach_turns (session_logger s)) @
             map evaluation_record (filter (\<lambda>ev. py_truthy (parsed ev)) new)" by blast
  moreover have "transcript (session_logger (on_transcript_update genai s (m # ms))) =
     transcript (session_logger s) @ map message_entry (m # ms)"
    by (simp add: step t1 t2)
  ultimately show ?case by blast
qed

text \<open>
  C6, as amended.  Whatever aggregation and evaluation do, the transcript handler records
  one transcript entry per message of the frame, in order.  In the transcript handler and
  in the disconnect handler, the per-turn log receives a record for exactly those
  evaluations appended to the state during the handling whose \<open>parsed\<close> is true, with the
  evaluation's turn number, pair and parsed value; an evaluation with \<open>parsed = null\<close> is
  not recorded.
\<close>

theorem recorder_receives_events_and_parsed_evaluations:
  "transcript (session_logger (on_transcript_update genai s ms)) =
     transcript (session_logger s) @ map message_entry ms
   \<and> take (length (evaluations (conv_state s)))
        (evaluations (conv_state (on_transcript_update genai s ms))) = evaluations (conv_state s)
   \<and> map turn_record (coach_turns (session_logger (on_transcript_update genai s ms))) =
       map turn_record (coach_turns (session_logger s)) @
       map evaluation_record
         (filter (\<lambda>ev. py_truthy (parsed ev))
            (drop (length (evaluations (conv_state s)))
               (evaluations (conv_state (on_transcript_update genai s ms)))))
   \<and> take (length (evaluations (conv_state s)))
        (evaluations (conv_state (on_client_disconnected genai s now))) = evaluations (conv_state s)
   \<and> map turn_record (coach_turns (session_logger (on_client_disconnected genai s now))) =
       map turn_record (coach_turns (session_logger s)) @
       map evaluation_record
         (filter (\<lambda>ev. py_truthy (parsed ev))
            (drop (length (evaluations (conv_state s)))
               (evaluations (conv_state (on_client_disconnected genai s now)))))"
proof -
  from on_transcript_update_effect [of genai s ms] obtain new where
    t: "transcript (session_logger (on_transcript_update genai s ms)) =
     transcript (session_logger s) @ map message_entry ms"
    and e: "evaluations (conv_state (on_transcript_update genai s ms)) =
              evaluations (conv_state s) @ new"
    and c: "map turn_record (coach_turns (session_logger (on_transcript_update genai s ms))) =
             map turn_record (coach_turns (session_logger s)) @
             map evaluation_record (filter (\<lambda>ev. py_truthy (parsed ev)) new)" by blast
  from on_client_disconnected_effect [of genai s now] obtain new' where
    e': "evaluations (conv_state (on_client_disconnected genai s now)) =
              evaluations (conv_state s) @ new'"
    and c': "map turn_record (coach_turns (session_logger (on_client_disconnected genai s now))) =
             map turn_record (coach_turns (session_logger s)) @
             map evaluation_record (filter (\<lambda>ev. py_truthy (parsed ev)) new')" by blast
  show ?thesis by (simp add: t e c e' c')
qed

text \<open>
  A turn is completed by the third message and the model times out: \<open>evaluate_turn\<close>
  returns an evaluation with \<open>parsed = null\<close>, and the per-turn log stays empty.
\<close>

theorem degraded_evaluation_not_recorded_counterexample:
  "evaluations (conv_state (on_transcript_update (constant_model TimedOut)
       (example_session [main_system_prompt] TimedOut)
       [((''assistant'', ''Hi''), (1, ''t1''), (2, ''t2'')),
        ((''user'', ''Yo''), (3, ''t3''), (4, ''t4'')),
        ((''assistant'', ''Bye''), (5, ''t5''), (6, ''t6''))]))
   = [\<lparr>turn_number = 1, customer_message = ''Hi'', representative_response = ''Yo'',
       raw_text = ''Timeout'', parsed = JNull\<rparr>]
   \<and> coach_turns (session_logger (on_transcript_update (constant_model TimedOut)
       (example_session [main_system_prompt] TimedOut)
       [((''assistant'', ''Hi''), (1, ''t1''), (2, ''t2'')),
        ((''user'', ''Yo''), (3, ''t3''), (4, ''t4'')),
        ((''assistant'', ''Bye''), (5, ''t5''), (6, ''t6''))])) = []"
  by code_simp

lemma parsed_evaluation_recorded: 
  "map turn_record (coach_turns (session_logger (on_transcript_update (constant_model (text_response ''{\"turn_quality_score\": 8}''))
       (example_session [main_system_prompt] (text_response ''{\"turn_quality_score\": 8}''))
       [((''assistant'', ''Hi''), (1, ''t1''), (2, ''t2'')),
        ((''user'', ''Yo''), (3, ''t3''), (4, ''t4'')),
        ((''assistant'', ''Bye''), (5, ''t5''), (6, ''t6''))]))) = [(1, ''Hi'', ''Yo'', JObject [(py_str ''turn_quality_score'', JInt 8)])]"
  by code_simp

end
